theory Spec2Isabelle
  imports Main "HOL-Library.Word"
begin

unbundle bit_operations_syntax

section \<open>Data model of basicarray.go\<close>

type_synonym byte = "8 word"
type_synonym uint32 = "32 word"
type_synonym uint64 = "64 word"

text \<open>
  Modelled from the spec: the declarations of \<open>Address\<close>, \<open>StorageIndex\<close> and
  \<open>StorageID\<close> are not in basicarray.go. The spec gives a slab id as an 8-byte owning
  address and an 8-byte index, with the all-zero id as the sentinel; each 8-byte array
  is read here as one big-endian 64-bit word.
\<close>

record StorageID =
  Address :: uint64
  Index :: uint64

definition StorageIDUndefined :: StorageID where
  "StorageIDUndefined = \<lparr>Address = 0, Index = 0\<rparr>"

text \<open>
  The errors of basicarray.go, one constructor per \<open>errors.New\<close> / \<open>fmt.Errorf\<close> site,
  a constructor for a Go panic, and one for an error handed back by a collaborator
  (storage, codec, Value or Storable implementation).
\<close>

datatype error =
    OutOfBounds
  | NotApplicable
  | DataTooShort
  | InvalidFlag byte byte
  | InvalidStorageID
  | SlabNotFound StorageID
  | NotBasicArrayDataSlab StorageID
  | Panic string
  | External string

text \<open>
  \<open>ArraySlabHeader\<close> is used by basicarray.go through its three fields \<open>id\<close>,
  \<open>size\<close> and \<open>count\<close> (the last two \<open>uint32\<close>); the field names carry the suffix
  \<open>_hdr\<close> because \<open>id\<close> and \<open>size\<close> are constants of HOL.
\<close>

record ArraySlabHeader =
  id_hdr :: StorageID
  size_hdr :: uint32
  count_hdr :: uint32

text \<open>
  \<open>BasicArrayDataSlab\<close>: the header and the slice of elements. The element type \<open>'s\<close>
  stands for the non-nil values of the interface \<open>Storable\<close>.
\<close>

record 's BasicArrayDataSlab =
  header :: ArraySlabHeader
  elements :: "'s list"

text \<open>
  The interface \<open>Slab\<close> has other implementations than \<open>BasicArrayDataSlab\<close> (none of
  them in basicarray.go); \<open>'o\<close> stands for them.
\<close>

datatype ('s, 'o) Slab =
    BasicArrayDataSlabPtr "'s BasicArrayDataSlab"
  | OtherSlab 'o

text \<open>
  The collaborators of basicarray.go, taken as parameters. Every method that receives
  a \<open>SlabStorage\<close> may change it, so it returns the storage with its result.
  \<^item> interface \<open>Storable\<close> (values of type \<open>'s\<close>): \<open>ByteSize\<close>, \<open>Encode\<close> (the bytes
    it appends to the encoder, or an error), \<open>StoredValue\<close>, \<open>DeepRemove\<close>;
  \<^item> interface \<open>Value\<close> (values of type \<open>'v\<close>): \<open>Storable\<close>, \<open>DeepRemove\<close>;
  \<^item> interface \<open>SlabStorage\<close> (states of type \<open>'st\<close>): \<open>Store\<close>, \<open>Retrieve\<close>,
    \<open>Remove\<close>, \<open>GenerateStorageID\<close>;
  \<^item> the flag constants and \<open>getSlabArrayType\<close> of the package (\<open>slabArrayType\<close> is
    an integer enumeration).
\<close>

record ('s, 'v, 'st, 'o) collaborators =
  ByteSize :: "'s \<Rightarrow> uint32"
  Encode :: "'s \<Rightarrow> error + byte list"
  StoredValue :: "'s \<Rightarrow> 'st \<Rightarrow> 'st \<times> (error + 'v)"
  Storable_DeepRemove :: "'s \<Rightarrow> 'st \<Rightarrow> 'st \<times> error option"
  Storable :: "'v \<Rightarrow> 'st \<Rightarrow> uint64 \<Rightarrow> 'st \<times> (error + 's)"
  Value_DeepRemove :: "'v \<Rightarrow> 'st \<Rightarrow> 'st \<times> error option"
  Store :: "'st \<Rightarrow> StorageID \<Rightarrow> ('s, 'o) Slab \<Rightarrow> 'st \<times> error option"
  Retrieve :: "'st \<Rightarrow> StorageID \<Rightarrow> 'st \<times> (error + ('s, 'o) Slab option)"
  Remove :: "'st \<Rightarrow> StorageID \<Rightarrow> 'st \<times> error option"
  GenerateStorageID :: "'st \<Rightarrow> uint64 \<Rightarrow> 'st \<times> (error + StorageID)"
  maskBasicArray :: byte
  maskSlabRoot :: byte
  getSlabArrayType :: "byte \<Rightarrow> nat"
  slabBasicArray :: nat

section \<open>BasicArrayDataSlab\<close>

definition basicArrayDataSlabPrefixSize :: uint32 where
  "basicArrayDataSlabPrefixSize = 1 + 8"

text \<open>
  \<open>NewBasicArrayDataSlab\<close>: the id comes from the storage, a failure there is a panic;
  \<open>count\<close> and \<open>elements\<close> keep Go's zero values.
\<close>

definition NewBasicArrayDataSlab ::
  "('s, 'v, 'st, 'o) collaborators \<Rightarrow> 'st \<Rightarrow> uint64 \<Rightarrow> 'st \<times> (error + 's BasicArrayDataSlab)" where
  "NewBasicArrayDataSlab env storage address =
     (case GenerateStorageID env storage address of
        (storage', Inl err) \<Rightarrow> (storage', Inl (Panic ''GenerateStorageID''))
      | (storage', Inr sid) \<Rightarrow>
          (storage', Inr \<lparr>header = \<lparr>id_hdr = sid, size_hdr = basicArrayDataSlabPrefixSize, count_hdr = 0\<rparr>,
                          elements = []\<rparr>))"

text \<open>
  Go's \<open>copy(xs[d:], xs[s:])\<close> inside one slice: \<open>min (len - d) (len - s)\<close> elements
  move from offset \<open>s\<close> to offset \<open>d\<close>, overlapping ranges handled as \<open>memmove\<close> does.
\<close>

definition go_copy :: "'a list \<Rightarrow> nat \<Rightarrow> nat \<Rightarrow> 'a list" where
  "go_copy xs d s =
     (let n = min (length xs - d) (length xs - s)
      in take d xs @ take n (drop s xs) @ drop (d + n) xs)"

text \<open>
  The slab methods change the slab in place and then call \<open>storage.Store\<close>; the model
  returns the slab and the storage as they are after the call, together with the
  result. An index is a \<open>uint64\<close>; \<open>len\<close> of a slice fits an \<open>int\<close>, so the comparison
  with \<open>uint64(len(a.elements))\<close> is the comparison of natural numbers. \<open>Get\<close> ignores
  its storage argument and changes nothing, so the model takes the slab and the index only.
\<close>

definition BasicArrayDataSlab_Get ::
  "'s BasicArrayDataSlab \<Rightarrow> uint64 \<Rightarrow> error + 's" where
  "BasicArrayDataSlab_Get a index =
     (if unat index \<ge> length (elements a) then Inl OutOfBounds
      else Inr (elements a ! unat index))"

definition BasicArrayDataSlab_Set ::
  "('s, 'v, 'st, 'o) collaborators \<Rightarrow> 's BasicArrayDataSlab \<Rightarrow> 'st \<Rightarrow> uint64 \<Rightarrow> 's
     \<Rightarrow> 's BasicArrayDataSlab \<times> 'st \<times> error option" where
  "BasicArrayDataSlab_Set env a storage index v =
     (if unat index \<ge> length (elements a) then (a, storage, Some OutOfBounds)
      else
        let oldElem = elements a ! unat index;
            a' = a\<lparr>elements := (elements a)[unat index := v],
                   header := (header a)\<lparr>size_hdr :=
                     size_hdr (header a) - ByteSize env oldElem + ByteSize env v\<rparr>\<rparr>;
            (storage', err) = Store env storage (id_hdr (header a')) (BasicArrayDataSlabPtr a')
        in (a', storage', err))"

text \<open>
  \<open>Insert\<close> in the middle: the slice grows by a nil slot, the tail moves up by one
  (\<open>copy\<close>), and \<open>v\<close> is written at \<open>index\<close>. The nil slot is \<open>None\<close> while the three
  statements run; the copy overwrites it because \<open>index < len\<close>.
\<close>

definition insert_elements :: "'s list \<Rightarrow> nat \<Rightarrow> 's \<Rightarrow> 's list" where
  "insert_elements xs i v =
     (if i = length xs then xs @ [v]
      else
        let grown = map Some xs @ [None];
            moved = go_copy grown (i + 1) i
        in map the (moved[i := Some v]))"

definition BasicArrayDataSlab_Insert ::
  "('s, 'v, 'st, 'o) collaborators \<Rightarrow> 's BasicArrayDataSlab \<Rightarrow> 'st \<Rightarrow> uint64 \<Rightarrow> 's
     \<Rightarrow> 's BasicArrayDataSlab \<times> 'st \<times> error option" where
  "BasicArrayDataSlab_Insert env a storage index v =
     (if unat index > length (elements a) then (a, storage, Some OutOfBounds)
      else
        let a' = a\<lparr>elements := insert_elements (elements a) (unat index) v,
                   header := (header a)\<lparr>count_hdr := count_hdr (header a) + 1,
                                         size_hdr := size_hdr (header a) + ByteSize env v\<rparr>\<rparr>;
            (storage', err) = Store env storage (id_hdr (header a')) (BasicArrayDataSlabPtr a')
        in (a', storage', err))"

text \<open>The \<open>switch\<close> of \<open>Remove\<close>: first element, last element, or an element between.\<close>

definition remove_elements :: "'s list \<Rightarrow> nat \<Rightarrow> 's list" where
  "remove_elements xs i =
     (if i = 0 then drop 1 xs
      else if i = length xs - 1 then take (length xs - 1) xs
      else take (length xs - 1) (go_copy xs i (i + 1)))"

definition BasicArrayDataSlab_Remove ::
  "('s, 'v, 'st, 'o) collaborators \<Rightarrow> 's BasicArrayDataSlab \<Rightarrow> 'st \<Rightarrow> uint64
     \<Rightarrow> 's BasicArrayDataSlab \<times> 'st \<times> (error + 's)" where
  "BasicArrayDataSlab_Remove env a storage index =
     (if unat index \<ge> length (elements a) then (a, storage, Inl OutOfBounds)
      else
        let v = elements a ! unat index;
            a' = a\<lparr>elements := remove_elements (elements a) (unat index),
                   header := (header a)\<lparr>count_hdr := count_hdr (header a) - 1,
                                         size_hdr := size_hdr (header a) - ByteSize env v\<rparr>\<rparr>;
            (storage', err) = Store env storage (id_hdr (header a')) (BasicArrayDataSlabPtr a')
        in (a', storage', case err of Some e \<Rightarrow> Inl e | None \<Rightarrow> Inr v))"

definition BasicArrayDataSlab_Count :: "'s BasicArrayDataSlab \<Rightarrow> uint64" where
  "BasicArrayDataSlab_Count a = of_nat (length (elements a))"

definition BasicArrayDataSlab_ID :: "'s BasicArrayDataSlab \<Rightarrow> StorageID" where
  "BasicArrayDataSlab_ID a = id_hdr (header a)"

text \<open>
  Sequences of slab operations: one constructor per method, applied in order to the
  slab and the storage; a sequence stops at the first operation that returns an error.
\<close>

datatype 's slab_op =
    OpGet uint64
  | OpSet uint64 's
  | OpInsert uint64 's
  | OpRemove uint64

fun apply_slab_op ::
  "('s, 'v, 'st, 'o) collaborators \<Rightarrow> 's BasicArrayDataSlab \<Rightarrow> 'st \<Rightarrow> 's slab_op
     \<Rightarrow> 's BasicArrayDataSlab \<times> 'st \<times> error option" where
  "apply_slab_op env a storage (OpGet i) =
     (a, storage, case BasicArrayDataSlab_Get a i of Inl e \<Rightarrow> Some e | Inr _ \<Rightarrow> None)"
| "apply_slab_op env a storage (OpSet i v) = BasicArrayDataSlab_Set env a storage i v"
| "apply_slab_op env a storage (OpInsert i v) = BasicArrayDataSlab_Insert env a storage i v"
| "apply_slab_op env a storage (OpRemove i) =
     (case BasicArrayDataSlab_Remove env a storage i of
        (a', storage', r) \<Rightarrow> (a', storage', case r of Inl e \<Rightarrow> Some e | Inr _ \<Rightarrow> None))"

fun run_slab_ops ::
  "('s, 'v, 'st, 'o) collaborators \<Rightarrow> 's BasicArrayDataSlab \<Rightarrow> 'st \<Rightarrow> 's slab_op list
     \<Rightarrow> 's BasicArrayDataSlab \<times> 'st \<times> error option" where
  "run_slab_ops env a storage [] = (a, storage, None)"
| "run_slab_ops env a storage (x # xs) =
     (case apply_slab_op env a storage x of
        (a', storage', Some e) \<Rightarrow> (a', storage', Some e)
      | (a', storage', None) \<Rightarrow> run_slab_ops env a' storage' xs)"

subsection \<open>Encoding and decoding\<close>

text \<open>\<open>binary.BigEndian.PutUint64\<close>: the eight bytes of \<open>v\<close>, most significant first.\<close>

definition BigEndian_PutUint64 :: "uint64 \<Rightarrow> byte list" where
  "BigEndian_PutUint64 v =
     [ucast (drop_bit 56 v), ucast (drop_bit 48 v), ucast (drop_bit 40 v), ucast (drop_bit 32 v),
      ucast (drop_bit 24 v), ucast (drop_bit 16 v), ucast (drop_bit 8 v), ucast v]"

text \<open>
  The loop of \<open>Encode\<close> over the elements: each element appends its bytes to the
  encoder; the first failing element ends the loop with its error.
\<close>

fun encode_elements :: "('s, 'v, 'st, 'o) collaborators \<Rightarrow> 's list \<Rightarrow> error + byte list" where
  "encode_elements env [] = Inr []"
| "encode_elements env (x # xs) =
     (case Encode env x of
        Inl e \<Rightarrow> Inl e
      | Inr bs \<Rightarrow>
          (case encode_elements env xs of
             Inl e \<Rightarrow> Inl e
           | Inr rest \<Rightarrow> Inr (bs @ rest)))"

text \<open>
  \<open>BasicArrayDataSlab.Encode\<close>. The encoder is the byte string it has received (a
  writer whose \<open>Write\<close> and \<open>Flush\<close> do not fail): the version byte and the flag, the
  nine bytes of the scratch buffer (\<open>0x80 | 27\<close> and the length as a big-endian
  \<open>uint64\<close>), then the elements.
\<close>

definition BasicArrayDataSlab_Encode ::
  "('s, 'v, 'st, 'o) collaborators \<Rightarrow> 's BasicArrayDataSlab \<Rightarrow> error + byte list" where
  "BasicArrayDataSlab_Encode env a =
     (let flag = maskBasicArray env OR maskSlabRoot env;
          scratch = (0x80 OR 27) # BigEndian_PutUint64 (of_nat (length (elements a)))
      in case encode_elements env (elements a) of
           Inl e \<Rightarrow> Inl e
         | Inr body \<Rightarrow> Inr ([0x0, flag] @ scratch @ body))"

text \<open>
  The loop of \<open>newBasicArrayDataSlabFromData\<close>: \<open>n\<close> calls of \<open>decodeStorable\<close> on the
  decoder's stream, each given \<open>StorageIDUndefined\<close>; the stream is the bytes not yet
  read.
\<close>

fun decode_elements ::
  "(byte list \<Rightarrow> StorageID \<Rightarrow> error + 's \<times> byte list) \<Rightarrow> nat \<Rightarrow> byte list \<Rightarrow> error + 's list" where
  "decode_elements decodeStorable 0 stream = Inr []"
| "decode_elements decodeStorable (Suc n) stream =
     (case decodeStorable stream StorageIDUndefined of
        Inl e \<Rightarrow> Inl e
      | Inr (storable, stream') \<Rightarrow>
          (case decode_elements decodeStorable n stream' of
             Inl e \<Rightarrow> Inl e
           | Inr xs \<Rightarrow> Inr (storable # xs)))"




text \<open>
  \<open>newBasicArrayDataSlabFromData\<close>. \<open>DecodeArrayHead\<close> is the stream decoder made by
  the argument \<open>decMode\<close>: it reads an array head from the stream and gives the element
  count and the rest of the stream (\<open>cbor_DecodeArrayHead\<close> above, for a mode with a given
  limit).
  \<open>make([]Storable, elemCount)\<close> panics when the count does not fit an \<open>int\<close>.
  The error for a wrong flag reports \<open>data[0]\<close>, as the source does.
\<close>

definition newBasicArrayDataSlabFromData ::
  "('s, 'v, 'st, 'o) collaborators \<Rightarrow> StorageID \<Rightarrow> byte list
     \<Rightarrow> (byte list \<Rightarrow> error + uint64 \<times> byte list)
     \<Rightarrow> (byte list \<Rightarrow> StorageID \<Rightarrow> error + 's \<times> byte list)
     \<Rightarrow> error + 's BasicArrayDataSlab" where
  "newBasicArrayDataSlabFromData env sid data DecodeArrayHead decodeStorable =
     (if length data < 2 then Inl DataTooShort
      else if getSlabArrayType env (data ! 1) \<noteq> slabBasicArray env
        then Inl (InvalidFlag (data ! 0) (maskBasicArray env))
      else
        (case DecodeArrayHead (drop 2 data) of
           Inl e \<Rightarrow> Inl e
         | Inr (elemCount, stream) \<Rightarrow>
             if 2 ^ 63 \<le> unat elemCount then Inl (Panic ''makeslice: len out of range'')
             else
               (case decode_elements decodeStorable (unat elemCount) stream of
                  Inl e \<Rightarrow> Inl e
                | Inr elems \<Rightarrow>
                    Inr \<lparr>header = \<lparr>id_hdr = sid, size_hdr = of_nat (length data),
                                   count_hdr = ucast elemCount\<rparr>,
                         elements = elems\<rparr>)))"

subsection \<open>Split, Merge, LendToRight, BorrowFromRight\<close>

text \<open>
  The four methods ignore their argument and return an error; the model returns the
  receiver and the argument as they are after the call.
\<close>

definition BasicArrayDataSlab_Split ::
  "'s BasicArrayDataSlab \<Rightarrow> 'st
     \<Rightarrow> 's BasicArrayDataSlab \<times> 'st \<times> (error + ('s, 'o) Slab \<times> ('s, 'o) Slab)" where
  "BasicArrayDataSlab_Split a storage = (a, storage, Inl NotApplicable)"

definition BasicArrayDataSlab_Merge ::
  "'s BasicArrayDataSlab \<Rightarrow> ('s, 'o) Slab \<Rightarrow> 's BasicArrayDataSlab \<times> ('s, 'o) Slab \<times> error option" where
  "BasicArrayDataSlab_Merge a slab = (a, slab, Some NotApplicable)"

definition BasicArrayDataSlab_LendToRight ::
  "'s BasicArrayDataSlab \<Rightarrow> ('s, 'o) Slab \<Rightarrow> 's BasicArrayDataSlab \<times> ('s, 'o) Slab \<times> error option" where
  "BasicArrayDataSlab_LendToRight a slab = (a, slab, Some NotApplicable)"

definition BasicArrayDataSlab_BorrowFromRight ::
  "'s BasicArrayDataSlab \<Rightarrow> ('s, 'o) Slab \<Rightarrow> 's BasicArrayDataSlab \<times> ('s, 'o) Slab \<times> error option" where
  "BasicArrayDataSlab_BorrowFromRight a slab = (a, slab, Some NotApplicable)"

text \<open>\<open>BasicArrayDataSlab.DeepRemove\<close>: the slab's id is removed from the storage.\<close>

definition BasicArrayDataSlab_DeepRemove ::
  "('s, 'v, 'st, 'o) collaborators \<Rightarrow> 's BasicArrayDataSlab \<Rightarrow> 'st \<Rightarrow> 'st \<times> error option" where
  "BasicArrayDataSlab_DeepRemove env a storage = Remove env storage (BasicArrayDataSlab_ID a)"

section \<open>BasicArray\<close>

text \<open>
  A \<open>BasicArray\<close> holds a pointer to its storage and its root slab. Storages live in a
  store indexed by their address, so that the storage handed to \<open>DeepRemove\<close> may or
  may not be the array's own. The root slab is held by value.
\<close>

type_synonym 'st storages = "nat \<Rightarrow> 'st"

record 's BasicArray =
  storage :: nat
  root :: "'s BasicArrayDataSlab"

text \<open>A method call on the storage at address \<open>p\<close>: the storage is replaced by its new state.\<close>

definition at_storage :: "'st storages \<Rightarrow> nat \<Rightarrow> ('st \<Rightarrow> 'st \<times> 'r) \<Rightarrow> 'st storages \<times> 'r" where
  "at_storage h p f = (case f (h p) of (st', r) \<Rightarrow> (h(p := st'), r))"

definition NewBasicArray ::
  "('s, 'v, 'st, 'o) collaborators \<Rightarrow> 'st storages \<Rightarrow> nat \<Rightarrow> uint64
     \<Rightarrow> 'st storages \<times> (error + 's BasicArray)" where
  "NewBasicArray env h p address =
     (case at_storage h p (\<lambda>st. NewBasicArrayDataSlab env st address) of
        (h', Inl e) \<Rightarrow> (h', Inl e)
      | (h', Inr slab) \<Rightarrow> (h', Inr \<lparr>storage = p, root = slab\<rparr>))"

definition BasicArray_StorageID :: "'s BasicArray \<Rightarrow> StorageID" where
  "BasicArray_StorageID a = BasicArrayDataSlab_ID (root a)"

definition BasicArray_Address :: "'s BasicArray \<Rightarrow> uint64" where
  "BasicArray_Address a = Address (BasicArray_StorageID a)"

definition BasicArray_Count :: "'s BasicArray \<Rightarrow> uint64" where
  "BasicArray_Count a = BasicArrayDataSlab_Count (root a)"

definition NewBasicArrayWithRootID ::
  "('s, 'v, 'st, 'o) collaborators \<Rightarrow> 'st storages \<Rightarrow> nat \<Rightarrow> StorageID
     \<Rightarrow> 'st storages \<times> (error + 's BasicArray)" where
  "NewBasicArrayWithRootID env h p sid =
     (if sid = StorageIDUndefined then (h, Inl InvalidStorageID)
      else
        (case at_storage h p (\<lambda>st. Retrieve env st sid) of
           (h', Inl e) \<Rightarrow> (h', Inl e)
         | (h', Inr None) \<Rightarrow> (h', Inl (SlabNotFound sid))
         | (h', Inr (Some (OtherSlab other))) \<Rightarrow> (h', Inl (NotBasicArrayDataSlab sid))
         | (h', Inr (Some (BasicArrayDataSlabPtr dataSlab))) \<Rightarrow>
             (h', Inr \<lparr>storage = p, root = dataSlab\<rparr>)))"

definition BasicArray_Get ::
  "('s, 'v, 'st, 'o) collaborators \<Rightarrow> 'st storages \<Rightarrow> 's BasicArray \<Rightarrow> uint64
     \<Rightarrow> 'st storages \<times> (error + 'v)" where
  "BasicArray_Get env h a index =
     (case BasicArrayDataSlab_Get (root a) index of
        Inl e \<Rightarrow> (h, Inl e)
      | Inr storable \<Rightarrow> at_storage h (storage a) (StoredValue env storable))"

definition BasicArray_Set ::
  "('s, 'v, 'st, 'o) collaborators \<Rightarrow> 'st storages \<Rightarrow> 's BasicArray \<Rightarrow> uint64 \<Rightarrow> 'v
     \<Rightarrow> 's BasicArray \<times> 'st storages \<times> error option" where
  "BasicArray_Set env h a index v =
     (case at_storage h (storage a) (\<lambda>st. Storable env v st (BasicArray_Address a)) of
        (h', Inl e) \<Rightarrow> (a, h', Some e)
      | (h', Inr storable) \<Rightarrow>
          (case BasicArrayDataSlab_Set env (root a) (h' (storage a)) index storable of
             (root', st', err) \<Rightarrow> (a\<lparr>root := root'\<rparr>, h'(storage a := st'), err)))"

definition BasicArray_Insert ::
  "('s, 'v, 'st, 'o) collaborators \<Rightarrow> 'st storages \<Rightarrow> 's BasicArray \<Rightarrow> uint64 \<Rightarrow> 'v
     \<Rightarrow> 's BasicArray \<times> 'st storages \<times> error option" where
  "BasicArray_Insert env h a index v =
     (case at_storage h (storage a) (\<lambda>st. Storable env v st (BasicArray_Address a)) of
        (h', Inl e) \<Rightarrow> (a, h', Some e)
      | (h', Inr storable) \<Rightarrow>
          (case BasicArrayDataSlab_Insert env (root a) (h' (storage a)) index storable of
             (root', st', err) \<Rightarrow> (a\<lparr>root := root'\<rparr>, h'(storage a := st'), err)))"

text \<open>\<open>Append\<close> takes its index from \<open>header.count\<close>, widened to \<open>uint64\<close>.\<close>

definition BasicArray_Append ::
  "('s, 'v, 'st, 'o) collaborators \<Rightarrow> 'st storages \<Rightarrow> 's BasicArray \<Rightarrow> 'v
     \<Rightarrow> 's BasicArray \<times> 'st storages \<times> error option" where
  "BasicArray_Append env h a v =
     (let index = ucast (count_hdr (header (root a)))
      in BasicArray_Insert env h a index v)"

definition BasicArray_Remove ::
  "('s, 'v, 'st, 'o) collaborators \<Rightarrow> 'st storages \<Rightarrow> 's BasicArray \<Rightarrow> uint64
     \<Rightarrow> 's BasicArray \<times> 'st storages \<times> (error + 'v)" where
  "BasicArray_Remove env h a index =
     (case BasicArrayDataSlab_Remove env (root a) (h (storage a)) index of
        (root', st', Inl e) \<Rightarrow> (a\<lparr>root := root'\<rparr>, h(storage a := st'), Inl e)
      | (root', st', Inr storable) \<Rightarrow>
          (case at_storage (h(storage a := st')) (storage a) (StoredValue env storable) of
             (h', r) \<Rightarrow> (a\<lparr>root := root'\<rparr>, h', r)))"

text \<open>
  The loop of \<open>BasicArray.DeepRemove\<close>, \<open>prevIndex\<close> counting down to zero: the
  storable at \<open>prevIndex - 1\<close> is read, the element is removed from the array (on the
  array's own storage), then its value and its storable are deep-removed on the storage
  \<open>p\<close> given to \<open>DeepRemove\<close>.
\<close>

function DeepRemove_loop ::
  "('s, 'v, 'st, 'o) collaborators \<Rightarrow> 'st storages \<Rightarrow> nat \<Rightarrow> 's BasicArray \<Rightarrow> uint64
     \<Rightarrow> 's BasicArray \<times> 'st storages \<times> error option" where
  "DeepRemove_loop env h p a prevIndex =
     (if prevIndex > 0 then
        (let index = prevIndex - 1 in
         case BasicArrayDataSlab_Get (root a) index of
           Inl e \<Rightarrow> (a, h, Some e)
         | Inr storable \<Rightarrow>
             (case BasicArray_Remove env h a index of
                (a1, h1, Inl e) \<Rightarrow> (a1, h1, Some e)
              | (a1, h1, Inr val) \<Rightarrow>
                  (case at_storage h1 p (Value_DeepRemove env val) of
                     (h2, Some e) \<Rightarrow> (a1, h2, Some e)
                   | (h2, None) \<Rightarrow>
                       (case at_storage h2 p (Storable_DeepRemove env storable) of
                          (h3, Some e) \<Rightarrow> (a1, h3, Some e)
                        | (h3, None) \<Rightarrow> DeepRemove_loop env h3 p a1 (prevIndex - 1)))))
      else (a, h, None))"
  by pat_completeness auto
termination
  by (relation "measure (\<lambda>(env, h, p, a, prevIndex). unat prevIndex)")
     (auto simp: unat_minus_one word_gt_0 unat_gt_0)

declare DeepRemove_loop.simps [simp del]

definition BasicArray_DeepRemove ::
  "('s, 'v, 'st, 'o) collaborators \<Rightarrow> 'st storages \<Rightarrow> nat \<Rightarrow> 's BasicArray
     \<Rightarrow> 's BasicArray \<times> 'st storages \<times> error option" where
  "BasicArray_DeepRemove env h p a =
     (let count = BasicArray_Count a in
      case DeepRemove_loop env h p a count of
        (a', h', Some e) \<Rightarrow> (a', h', Some e)
      | (a', h', None) \<Rightarrow>
          (case at_storage h' p (BasicArrayDataSlab_DeepRemove env (root a')) of
             (h'', err) \<Rightarrow> (a', h'', err)))"

text \<open>
  Sequences of array operations; every operation of the sequence is applied, whether
  or not an earlier one returned an error.
\<close>

datatype 'v array_op =
    ArrGet uint64
  | ArrSet uint64 'v
  | ArrInsert uint64 'v
  | ArrAppend 'v
  | ArrRemove uint64

fun apply_array_op ::
  "('s, 'v, 'st, 'o) collaborators \<Rightarrow> 's BasicArray \<times> 'st storages \<Rightarrow> 'v array_op
     \<Rightarrow> 's BasicArray \<times> 'st storages" where
  "apply_array_op env (a, h) (ArrGet i) = (a, fst (BasicArray_Get env h a i))"
| "apply_array_op env (a, h) (ArrSet i v) =
     (case BasicArray_Set env h a i v of (a', h', err) \<Rightarrow> (a', h'))"
| "apply_array_op env (a, h) (ArrInsert i v) =
     (case BasicArray_Insert env h a i v of (a', h', err) \<Rightarrow> (a', h'))"
| "apply_array_op env (a, h) (ArrAppend v) =
     (case BasicArray_Append env h a v of (a', h', err) \<Rightarrow> (a', h'))"
| "apply_array_op env (a, h) (ArrRemove i) =
     (case BasicArray_Remove env h a i of (a', h', r) \<Rightarrow> (a', h'))"

definition run_array_ops ::
  "('s, 'v, 'st, 'o) collaborators \<Rightarrow> 's BasicArray \<times> 'st storages \<Rightarrow> 'v array_op list
     \<Rightarrow> 's BasicArray \<times> 'st storages" where
  "run_array_ops env s ops = foldl (apply_array_op env) s ops"

section \<open>The Array data slab\<close>

text \<open>
  Modelled from the spec: \<open>ArrayDataSlab.Encode\<close>, the encoder of the data slabs of
  \<open>Array\<close>, is not among the source files; its test \<open>TestArrayEncodeDecode\<close> is. By
  the spec (6.1) a slab begins with one version byte (\<open>0x00\<close>, the only version) and
  one flag byte; the body of an array data slab is, for a slab that is not the root,
  the id of the next slab (16 bytes), then a CBOR definite-length array head in the
  fixed three-byte form \<open>0x99 XX XX\<close>, then the encoding of each element; multi-byte
  integers are big-endian. A root slab carries the container's extra data, which the
  expected bytes of the test show as a section of its own in front of the slab's
  version byte. The extra data section (made by the \<open>TypeInfo\<close> codec) and the flag
  byte are taken as they are given; \<open>nextID\<close> is \<open>None\<close> for a root slab.
\<close>

definition BigEndian_PutUint16 :: "16 word \<Rightarrow> byte list" where
  "BigEndian_PutUint16 v = [ucast (drop_bit 8 v), ucast v]"

definition StorageID_bytes :: "StorageID \<Rightarrow> byte list" where
  "StorageID_bytes sid = BigEndian_PutUint64 (Address sid) @ BigEndian_PutUint64 (Index sid)"

definition ArrayDataSlab_Encode ::
  "('s, 'v, 'st, 'o) collaborators \<Rightarrow> byte list \<Rightarrow> byte \<Rightarrow> StorageID option \<Rightarrow> 's list
     \<Rightarrow> error + byte list" where
  "ArrayDataSlab_Encode env extraData flag nextID elems =
     (case encode_elements env elems of
        Inl e \<Rightarrow> Inl e
      | Inr body \<Rightarrow>
          Inr (extraData @ [0x00, flag]
               @ (case nextID of None \<Rightarrow> [] | Some sid \<Rightarrow> StorageID_bytes sid)
               @ [0x99] @ BigEndian_PutUint16 (of_nat (length elems))
               @ body))"

text \<open>
  An instance of the collaborators whose storables are their own encodings, for the
  expected bytes of the test (strings and a pointer among the elements).
\<close>

definition encoded_env :: "(byte list, byte list, unit, unit) collaborators" where
  "encoded_env =
     \<lparr>ByteSize = (\<lambda>s. of_nat (length s)),
      Encode = (\<lambda>s. Inr s),
      StoredValue = (\<lambda>s st. (st, Inr s)),
      Storable_DeepRemove = (\<lambda>s st. (st, None)),
      Storable = (\<lambda>v st address. (st, Inr v)),
      Value_DeepRemove = (\<lambda>v st. (st, None)),
      Store = (\<lambda>st i sl. (st, None)),
      Retrieve = (\<lambda>st i. (st, Inr None)),
      Remove = (\<lambda>st i. (st, None)),
      GenerateStorageID = (\<lambda>st address. (st, Inr \<lparr>Address = address, Index = 1\<rparr>)),
      maskBasicArray = 0x03,
      maskSlabRoot = 0x80,
      getSlabArrayType = (\<lambda>f. if f AND 0x18 = 0 \<and> f AND 0x07 = 0x03 then 4 else 0),
      slabBasicArray = 4\<rparr>"

section \<open>An invariant of the slab, and DeepRemove as a recursion over the elements\<close>

text \<open>
  What \<open>Insert\<close>, \<open>Set\<close> and \<open>Remove\<close> keep true of a slab: \<open>header.count\<close> is the
  number of elements (as a \<open>uint32\<close>), and \<open>header.size\<close> is the prefix size plus the
  \<open>ByteSize\<close> of every element (as a \<open>uint32\<close>).
\<close>

definition slab_inv :: "('s, 'v, 'st, 'o) collaborators \<Rightarrow> 's BasicArrayDataSlab \<Rightarrow> bool" where
  "slab_inv env a \<longleftrightarrow>
     count_hdr (header a) = of_nat (length (elements a))
     \<and> size_hdr (header a) = basicArrayDataSlabPrefixSize + sum_list (map (ByteSize env) (elements a))"

text \<open>
  What claim C8 says of \<open>BasicArray.DeepRemove\<close>, written as a recursion over the
  elements from the last to the first: the element at the last index is removed from
  the array, then its stored value and then its storable are deep-removed on the
  storage \<open>p\<close>. The list \<open>s # remaining\<close> holds the elements still in the array, last
  element first.
\<close>

fun deep_remove_from_last ::
  "('s, 'v, 'st, 'o) collaborators \<Rightarrow> nat \<Rightarrow> 's BasicArray \<Rightarrow> 'st storages \<Rightarrow> 's list
     \<Rightarrow> 's BasicArray \<times> 'st storages \<times> error option" where
  "deep_remove_from_last env p a h [] = (a, h, None)"
| "deep_remove_from_last env p a h (s # remaining) =
     (case BasicArray_Remove env h a (of_nat (length remaining)) of
        (a1, h1, Inl e) \<Rightarrow> (a1, h1, Some e)
      | (a1, h1, Inr val) \<Rightarrow>
          (case at_storage h1 p (Value_DeepRemove env val) of
             (h2, Some e) \<Rightarrow> (a1, h2, Some e)
           | (h2, None) \<Rightarrow>
               (case at_storage h2 p (Storable_DeepRemove env s) of
                  (h3, Some e) \<Rightarrow> (a1, h3, Some e)
                | (h3, None) \<Rightarrow> deep_remove_from_last env p a1 h3 remaining)))"

section \<open>An instance of the collaborators\<close>

text \<open>
  A small instance for evaluating the model: storables and values are single bytes,
  encoded as the CBOR tag \<open>0xd8 0xa4\<close> and the byte (three bytes each); the storage is
  an association list of slabs, a counter for the ids it issues, and a log of the
  values and storables deep-removed on it.
\<close>

datatype example_event = DeepRemovedValue byte | DeepRemovedStorable byte

record example_storage =
  slabs :: "(StorageID \<times> (byte, unit) Slab) list"
  nextIndex :: uint64
  removed :: "example_event list"

definition example_env :: "(byte, byte, example_storage, unit) collaborators" where
  "example_env =
     \<lparr>ByteSize = (\<lambda>s. 3),
      Encode = (\<lambda>s. Inr [0xd8, 0xa4, s]),
      StoredValue = (\<lambda>s st. (st, Inr s)),
      Storable_DeepRemove = (\<lambda>s st. (st\<lparr>removed := removed st @ [DeepRemovedStorable s]\<rparr>, None)),
      Storable = (\<lambda>v st address. (st, Inr v)),
      Value_DeepRemove = (\<lambda>v st. (st\<lparr>removed := removed st @ [DeepRemovedValue v]\<rparr>, None)),
      Store = (\<lambda>st i sl. (st\<lparr>slabs := (i, sl) # filter (\<lambda>e. fst e \<noteq> i) (slabs st)\<rparr>, None)),
      Retrieve = (\<lambda>st i. (st, Inr (map_of (slabs st) i))),
      Remove = (\<lambda>st i. (st\<lparr>slabs := filter (\<lambda>e. fst e \<noteq> i) (slabs st)\<rparr>, None)),
      GenerateStorageID = (\<lambda>st address.
        (st\<lparr>nextIndex := nextIndex st + 1\<rparr>, Inr \<lparr>Address = address, Index = nextIndex st + 1\<rparr>)),
      maskBasicArray = 0x03,
      maskSlabRoot = 0x80,
      getSlabArrayType = (\<lambda>f. if f AND 0x18 = 0 \<and> f AND 0x07 = 0x03 then 4 else 0),
      slabBasicArray = 4\<rparr>"

definition example_storage0 :: example_storage where
  "example_storage0 = \<lparr>slabs = [], nextIndex = 0, removed = []\<rparr>"

definition example_id :: StorageID where
  "example_id = \<lparr>Address = 0x0102030405060708, Index = 1\<rparr>"

definition example_slab :: "byte list \<Rightarrow> byte BasicArrayDataSlab" where
  "example_slab xs =
     \<lparr>header = \<lparr>id_hdr = example_id, size_hdr = 9 + 3 * of_nat (length xs),
                 count_hdr = of_nat (length xs)\<rparr>,
      elements = xs\<rparr>"



text \<open>
  A storage of the example instance holding the slab of an array of three elements and
  a slab of another kind, and the array opened on it (the storage at address 0).
\<close>

definition example_other_id :: StorageID where
  "example_other_id = \<lparr>Address = 0x0102030405060708, Index = 2\<rparr>"

definition example_storage1 :: example_storage where
  "example_storage1 =
     \<lparr>slabs = [(example_id, BasicArrayDataSlabPtr (example_slab [1, 2, 3])),
               (example_other_id, OtherSlab ())],
      nextIndex = 2, removed = []\<rparr>"

definition example_array :: "byte BasicArray" where
  "example_array = \<lparr>storage = 0, root = example_slab [1, 2, 3]\<rparr>"

section \<open>Properties of the slab operations\<close>

lemma insert_elements_eq:
  assumes "i \<le> length xs"
  shows "insert_elements xs i v = take i xs @ v # drop i xs"
proof (cases "i = length xs")
  case True
  then show ?thesis by (simp add: insert_elements_def)
next
  case False
  with assms have lt: "i < length xs" by simp
  have n: "min (length (map Some xs @ [None]) - (i + 1)) (length (map Some xs @ [None]) - i)
             = length xs - i"
    using lt by simp
  have "go_copy (map Some xs @ [None]) (i + 1) i
          = take (i + 1) (map Some xs @ [None])
            @ take (length xs - i) (drop i (map Some xs @ [None]))
            @ drop (i + 1 + (length xs - i)) (map Some xs @ [None])"
    unfolding go_copy_def Let_def n ..
  also have "\<dots> = map Some (take (Suc i) xs) @ map Some (drop i xs)"
    using lt by (simp add: take_map drop_map)
  also have "\<dots> = map Some (take i xs @ (xs ! i) # drop i xs)"
    using lt by (simp add: take_Suc_conv_app_nth)
  finally have moved: "go_copy (map Some xs @ [None]) (i + 1) i
                 = map Some (take i xs @ (xs ! i) # drop i xs)" .
  have "(map Some (take i xs @ (xs ! i) # drop i xs))[i := Some v]
          = map Some (take i xs @ v # drop i xs)"
    using lt by (simp add: list_update_append)
  with moved False show ?thesis
    by (simp add: insert_elements_def Let_def del: map_append)
qed

lemma remove_elements_eq:
  assumes "i < length xs"
  shows "remove_elements xs i = take i xs @ drop (Suc i) xs"
proof -
  consider "i = 0" | "i \<noteq> 0" "i = length xs - 1" | "i \<noteq> 0" "i \<noteq> length xs - 1" by blast
  then show ?thesis
  proof cases
    case 1
    then show ?thesis by (simp add: remove_elements_def)
  next
    case 2
    then show ?thesis using assms by (simp add: remove_elements_def)
  next
    case 3
    with assms have lt: "Suc i < length xs" by simp
    have n: "min (length xs - i) (length xs - (i + 1)) = length xs - Suc i" by simp
    have "go_copy xs i (i + 1)
            = take i xs @ take (length xs - Suc i) (drop (i + 1) xs)
              @ drop (i + (length xs - Suc i)) xs"
      unfolding go_copy_def Let_def n ..
    also have "\<dots> = take i xs @ drop (Suc i) xs @ drop (length xs - 1) xs"
      using lt by simp
    finally have "take (length xs - 1) (go_copy xs i (i + 1)) = take i xs @ drop (Suc i) xs"
      using lt by simp
    then show ?thesis using 3 by (simp add: remove_elements_def)
  qed
qed

lemma oob_unchanged:
  "unat index \<ge> length (elements a) \<Longrightarrow> BasicArrayDataSlab_Set env a st index v = (a, st, Some OutOfBounds)"
  "unat index \<ge> length (elements a) \<Longrightarrow> BasicArrayDataSlab_Remove env a st index = (a, st, Inl OutOfBounds)"
  "unat index > length (elements a) \<Longrightarrow> BasicArrayDataSlab_Insert env a st index v = (a, st, Some OutOfBounds)"
  by (simp_all add: BasicArrayDataSlab_Set_def BasicArrayDataSlab_Remove_def BasicArrayDataSlab_Insert_def)

lemma Set_in_bounds:
  assumes "unat index < length (elements a)"
    and "a' = a\<lparr>elements := (elements a)[unat index := v],
        header := (header a)\<lparr>size_hdr :=
          size_hdr (header a) - ByteSize env (elements a ! unat index) + ByteSize env v\<rparr>\<rparr>"
  shows "BasicArrayDataSlab_Set env a st index v
           = (a', Store env st (id_hdr (header a)) (BasicArrayDataSlabPtr a'))"
  using assms by (simp add: BasicArrayDataSlab_Set_def Let_def case_prod_beta)

lemma Insert_in_bounds:
  assumes "unat index \<le> length (elements a)"
    and "a' = a\<lparr>elements := take (unat index) (elements a) @ v # drop (unat index) (elements a),
        header := (header a)\<lparr>count_hdr := count_hdr (header a) + 1,
                              size_hdr := size_hdr (header a) + ByteSize env v\<rparr>\<rparr>"
  shows "BasicArrayDataSlab_Insert env a st index v
           = (a', Store env st (id_hdr (header a)) (BasicArrayDataSlabPtr a'))"
  using assms by (simp add: BasicArrayDataSlab_Insert_def Let_def insert_elements_eq case_prod_beta)

lemma Remove_in_bounds:
  assumes "unat index < length (elements a)"
    and "a' = a\<lparr>elements := take (unat index) (elements a) @ drop (Suc (unat index)) (elements a),
        header := (header a)\<lparr>count_hdr := count_hdr (header a) - 1,
                              size_hdr := size_hdr (header a) - ByteSize env (elements a ! unat index)\<rparr>\<rparr>"
  shows "BasicArrayDataSlab_Remove env a st index
           = (a', fst (Store env st (id_hdr (header a)) (BasicArrayDataSlabPtr a')),
              case snd (Store env st (id_hdr (header a)) (BasicArrayDataSlabPtr a')) of
                Some e \<Rightarrow> Inl e | None \<Rightarrow> Inr (elements a ! unat index))"
  using assms by (simp add: BasicArrayDataSlab_Remove_def Let_def remove_elements_eq case_prod_beta)

lemma Set_keeps_id:
  "BasicArrayDataSlab_Set env a st i v = (a', st', r) \<Longrightarrow> id_hdr (header a') = id_hdr (header a)"
  by (auto simp: BasicArrayDataSlab_Set_def Let_def case_prod_beta split: if_splits)

lemma Insert_keeps_id:
  "BasicArrayDataSlab_Insert env a st i v = (a', st', r) \<Longrightarrow> id_hdr (header a') = id_hdr (header a)"
  by (auto simp: BasicArrayDataSlab_Insert_def Let_def case_prod_beta split: if_splits)

lemma Remove_keeps_id:
  "BasicArrayDataSlab_Remove env a st i = (a', st', r) \<Longrightarrow> id_hdr (header a') = id_hdr (header a)"
  by (auto simp: BasicArrayDataSlab_Remove_def Let_def case_prod_beta split: if_splits)

lemma New_slab:
  assumes "NewBasicArrayDataSlab env st0 address = (storage0, Inr a0)"
  shows "elements a0 = []" and "count_hdr (header a0) = 0" and "size_hdr (header a0) = 9"
  using assms
  by (auto simp: NewBasicArrayDataSlab_def basicArrayDataSlabPrefixSize_def
      split: prod.splits sum.splits)

lemma sum_list_take_drop_word:
  "sum_list (map f (take i xs)) + sum_list (map f (drop i xs)) = (sum_list (map f xs) :: uint32)"
proof -
  have "sum_list (map f (take i xs @ drop i xs)) = sum_list (map f xs)" by simp
  then show ?thesis by (simp only: map_append sum_list.append)
qed

lemma sum_list_insert_word:
  "sum_list (map f (take i xs @ v # drop i xs)) = sum_list (map f xs) + (f v :: uint32)"
  using sum_list_take_drop_word[of f i xs] by simp

lemma sum_list_remove_word:
  assumes "i < length xs"
  shows "sum_list (map f (take i xs @ drop (Suc i) xs)) = sum_list (map f xs) - (f (xs ! i) :: uint32)"
proof -
  have "xs = take i xs @ xs ! i # drop (Suc i) xs"
    using assms by (simp add: id_take_nth_drop)
  then have "sum_list (map f xs) = sum_list (map f (take i xs @ xs ! i # drop (Suc i) xs))"
    by simp
  also have "\<dots> = sum_list (map f (take i xs @ drop (Suc i) xs)) + f (xs ! i)"
    by simp
  finally show ?thesis by simp
qed

lemma sum_list_update_word:
  assumes "i < length xs"
  shows "sum_list (map f (xs[i := v])) = sum_list (map f xs) - (f (xs ! i) :: uint32) + f v"
proof -
  have "xs[i := v] = take i xs @ v # drop (Suc i) xs"
    using assms by (simp add: upd_conv_take_nth_drop)
  then have "sum_list (map f (xs[i := v])) = sum_list (map f (take i xs @ drop (Suc i) xs)) + f v"
    by simp
  then show ?thesis using sum_list_remove_word[OF assms, of f] by simp
qed

lemma apply_slab_op_inv:
  assumes "slab_inv env a" and "apply_slab_op env a st x = (a', st', r)"
  shows "slab_inv env a'"
proof (cases x)
  case (OpGet i)
  with assms show ?thesis by simp
next
  case (OpSet i v)
  show ?thesis
  proof (cases "unat i < length (elements a)")
    case True
    from Set_in_bounds[OF True refl, of env st v] assms(2) OpSet
    have "a' = a\<lparr>elements := (elements a)[unat i := v],
        header := (header a)\<lparr>size_hdr :=
          size_hdr (header a) - ByteSize env (elements a ! unat i) + ByteSize env v\<rparr>\<rparr>"
      by simp
    with assms(1) True show ?thesis
      by (simp add: slab_inv_def sum_list_update_word)
  next
    case False
    then show ?thesis using assms OpSet by (simp add: oob_unchanged)
  qed
next
  case (OpInsert i v)
  show ?thesis
  proof (cases "unat i \<le> length (elements a)")
    case True
    from Insert_in_bounds[OF True refl, of env st v] assms(2) OpInsert
    have "a' = a\<lparr>elements := take (unat i) (elements a) @ v # drop (unat i) (elements a),
        header := (header a)\<lparr>count_hdr := count_hdr (header a) + 1,
                              size_hdr := size_hdr (header a) + ByteSize env v\<rparr>\<rparr>"
      by simp
    with assms(1) True show ?thesis
      by (simp add: slab_inv_def sum_list_insert_word del: map_append)
  next
    case False
    then show ?thesis using assms OpInsert by (simp add: oob_unchanged)
  qed
next
  case (OpRemove i)
  show ?thesis
  proof (cases "unat i < length (elements a)")
    case True
    then have "Suc 0 \<le> length (elements a)" by linarith
    from of_nat_diff[OF this, where ?'a = uint32]
    have cnt: "(of_nat (length (elements a) - Suc 0) :: uint32) = of_nat (length (elements a)) - 1"
      by simp
    from Remove_in_bounds[OF True refl, of env st] assms(2) OpRemove
    have "a' = a\<lparr>elements := take (unat i) (elements a) @ drop (Suc (unat i)) (elements a),
        header := (header a)\<lparr>count_hdr := count_hdr (header a) - 1,
                              size_hdr := size_hdr (header a) - ByteSize env (elements a ! unat i)\<rparr>\<rparr>"
      by simp
    with assms(1) True cnt show ?thesis
      by (simp add: slab_inv_def sum_list_remove_word min_def del: map_append)
  next
    case False
    then show ?thesis using assms OpRemove by (simp add: oob_unchanged)
  qed
qed

lemma run_slab_ops_inv:
  assumes "slab_inv env a" and "run_slab_ops env a st ops = (a', st', r)"
  shows "slab_inv env a'"
  using assms
proof (induction ops arbitrary: a st)
  case Nil
  then show ?case by simp
next
  case (Cons x xs)
  obtain a1 st1 r1 where step: "apply_slab_op env a st x = (a1, st1, r1)"
    by (cases "apply_slab_op env a st x") auto
  from apply_slab_op_inv[OF Cons.prems(1) step] have inv1: "slab_inv env a1" .
  show ?case
  proof (cases r1)
    case None
    with step Cons.prems(2) have "run_slab_ops env a1 st1 xs = (a', st', r)" by simp
    from Cons.IH[OF inv1 this] show ?thesis .
  next
    case (Some e)
    with step Cons.prems(2) have "a' = a1" by simp
    with inv1 show ?thesis by simp
  qed
qed

lemma New_slab_inv:
  assumes "NewBasicArrayDataSlab env st address = (st1, Inr a0)"
  shows "slab_inv env a0"
  using assms
  by (auto simp: NewBasicArrayDataSlab_def slab_inv_def split: prod.splits sum.splits)

lemma of_nat_sum_unat:
  "(of_nat (sum_list (map (\<lambda>x. unat (f x)) xs)) :: uint32) = sum_list (map f xs)"
  by (induction xs) simp_all

lemma run_insert_front_full:
  assumes store_ok: "\<And>st i sl. snd (Store env st i sl) = None"
  shows "\<exists>a' st'. run_slab_ops env a st (map (OpInsert 0) ws) = (a', st', None)
           \<and> elements a' = rev ws @ elements a
           \<and> id_hdr (header a') = id_hdr (header a)
           \<and> size_hdr (header a') = size_hdr (header a) + sum_list (map (ByteSize env) ws)"
proof (induction ws arbitrary: a st)
  case Nil
  then show ?case by simp
next
  case (Cons w ws)
  obtain a1 where a1: "a1 = a\<lparr>elements := take (unat (0::uint64)) (elements a) @ w # drop (unat (0::uint64)) (elements a),
        header := (header a)\<lparr>count_hdr := count_hdr (header a) + 1,
                              size_hdr := size_hdr (header a) + ByteSize env w\<rparr>\<rparr>" by simp
  have "BasicArrayDataSlab_Insert env a st 0 w
          = (a1, Store env st (id_hdr (header a)) (BasicArrayDataSlabPtr a1))"
    by (rule Insert_in_bounds[OF _ a1]) simp
  then have step: "apply_slab_op env a st (OpInsert 0 w)
          = (a1, fst (Store env st (id_hdr (header a)) (BasicArrayDataSlabPtr a1)), None)"
    using store_ok[of st "id_hdr (header a)" "BasicArrayDataSlabPtr a1"]
    by (simp add: prod_eq_iff)
  from Cons.IH[of a1 "fst (Store env st (id_hdr (header a)) (BasicArrayDataSlabPtr a1))"]
  obtain a' st' where "run_slab_ops env a1 (fst (Store env st (id_hdr (header a)) (BasicArrayDataSlabPtr a1)))
       (map (OpInsert 0) ws) = (a', st', None)" and "elements a' = rev ws @ elements a1"
       and "id_hdr (header a') = id_hdr (header a1)"
       and "size_hdr (header a') = size_hdr (header a1) + sum_list (map (ByteSize env) ws)"
    by blast
  with step a1 show ?case by simp
qed

section \<open>Properties of the encoding\<close>

lemma PutUint64_length: "length (BigEndian_PutUint64 n) = 8"
  by (simp add: BigEndian_PutUint64_def)

lemma encode_elements_parts:
  assumes "encode_elements env xs = Inr body"
  shows "\<exists>parts. map (Encode env) xs = map Inr parts \<and> body = concat parts"
  using assms
proof (induction xs arbitrary: body)
  case Nil
  then show ?case by simp
next
  case (Cons x xs)
  from Cons.prems obtain bs rest where
    x: "Encode env x = Inr bs" and r: "encode_elements env xs = Inr rest" and b: "body = bs @ rest"
    by (auto split: sum.splits)
  from Cons.IH[OF r] obtain parts where
    "map (Encode env) xs = map Inr parts" and "rest = concat parts" by blast
  with x b have "map (Encode env) (x # xs) = map Inr (bs # parts) \<and> body = concat (bs # parts)"
    by simp
  then show ?case by blast
qed

lemma encode_elements_length:
  assumes "encode_elements env xs = Inr body"
    and "\<forall>s\<in>set xs. \<forall>bs. Encode env s = Inr bs \<longrightarrow> ByteSize env s = of_nat (length bs)"
  shows "(of_nat (length body) :: uint32) = sum_list (map (ByteSize env) xs)"
  using assms
proof (induction xs arbitrary: body)
  case Nil
  then show ?case by simp
next
  case (Cons x xs)
  from Cons.prems(1) obtain bs rest where
    x: "Encode env x = Inr bs" and r: "encode_elements env xs = Inr rest" and b: "body = bs @ rest"
    by (auto split: sum.splits)
  from Cons.IH[OF r] Cons.prems(2) have "(of_nat (length rest) :: uint32) = sum_list (map (ByteSize env) xs)"
    by simp
  moreover from Cons.prems(2) x have "ByteSize env x = of_nat (length bs)" by simp
  ultimately show ?case using b by simp
qed

lemma Encode_bytes:
  "BasicArrayDataSlab_Encode env a = Inr bytes
     \<longleftrightarrow> (\<exists>body. encode_elements env (elements a) = Inr body
            \<and> bytes = [0x00, maskBasicArray env OR maskSlabRoot env, 0x9b]
                 @ BigEndian_PutUint64 (of_nat (length (elements a))) @ body)"
  by (auto simp: BasicArrayDataSlab_Encode_def Let_def split: sum.splits)


lemma decoded_size_is_length:
  assumes "newBasicArrayDataSlabFromData env sid data DecodeArrayHead decodeStorable = Inr a'"
  shows "size_hdr (header a') = of_nat (length data)"
  using assms
  by (auto simp: newBasicArrayDataSlabFromData_def split: if_splits sum.splits prod.splits)









lemma PutUint16_bytes:
  "\<exists>hi lo. BigEndian_PutUint16 v = [hi, lo] \<and> 256 * unat hi + unat lo = unat v"
proof -
  have lt: "unat v < 65536" using unsigned_less[of v, where ?'a = nat] by simp
  have "unat (drop_bit 8 v) = unat v div 256"
    by (simp only: unat_drop_bit_eq) (simp add: drop_bit_eq_div)
  moreover have "unat (ucast (drop_bit 8 v) :: byte) = unat (drop_bit 8 v) mod 256"
    by (simp only: unsigned_ucast_eq take_bit_eq_mod) simp
  ultimately have hi: "unat (ucast (drop_bit 8 v) :: byte) = unat v div 256"
    using lt by simp
  have lo: "unat (ucast v :: byte) = unat v mod 256"
    by (simp add: unsigned_ucast_eq take_bit_eq_mod)
  have "256 * unat (ucast (drop_bit 8 v) :: byte) + unat (ucast v :: byte) = unat v"
    unfolding hi lo by presburger
  then show ?thesis by (simp add: BigEndian_PutUint16_def)
qed


lemma StorageID_bytes_length: "length (StorageID_bytes sid) = 16"
  by (simp add: StorageID_bytes_def PutUint64_length)

section \<open>Properties of the array operations\<close>

lemma apply_array_op_keeps_id:
  "BasicArray_StorageID (fst (apply_array_op env (a, h) x)) = BasicArray_StorageID a
   \<and> storage (fst (apply_array_op env (a, h) x)) = storage a"
proof (cases x)
  case (ArrGet i)
  then show ?thesis by simp
next
  case (ArrSet i v)
  then show ?thesis
    by (auto dest: Set_keeps_id simp: BasicArray_Set_def BasicArray_StorageID_def BasicArrayDataSlab_ID_def
        split: prod.splits sum.splits)
next
  case (ArrInsert i v)
  then show ?thesis
    by (auto dest: Insert_keeps_id simp: BasicArray_Insert_def BasicArray_StorageID_def BasicArrayDataSlab_ID_def
        split: prod.splits sum.splits)
next
  case (ArrAppend v)
  then show ?thesis
    by (auto dest: Insert_keeps_id simp: BasicArray_Append_def BasicArray_Insert_def BasicArray_StorageID_def
        BasicArrayDataSlab_ID_def Let_def split: prod.splits sum.splits)
next
  case (ArrRemove i)
  then show ?thesis
    by (auto dest: Remove_keeps_id simp: BasicArray_Remove_def BasicArray_StorageID_def BasicArrayDataSlab_ID_def
        split: prod.splits sum.splits)
qed

lemma BasicArray_Remove_root:
  assumes "BasicArray_Remove env h a i = (a1, h1, r)"
  shows "root a1 = fst (BasicArrayDataSlab_Remove env (root a) (h (storage a)) i)"
    and "storage a1 = storage a"
  using assms
  by (auto simp: BasicArray_Remove_def at_storage_def split: prod.splits sum.splits)

lemma BasicArray_Remove_last:
  assumes els: "elements (root a) = xs @ [s]"
    and len: "length xs < 2 ^ 64"
    and rm: "BasicArray_Remove env h a (of_nat (length xs)) = (a1, h1, r)"
  shows "elements (root a1) = xs"
proof -
  let ?i = "of_nat (length xs) :: uint64"
  from len have ui: "unat ?i = length xs" by (simp add: of_nat_inverse)
  then have inb: "unat ?i < length (elements (root a))" using els by simp
  from Remove_in_bounds[OF inb refl, of env "h (storage a)"] BasicArray_Remove_root(1)[OF rm]
  show ?thesis using els ui by simp
qed

lemma loop_refines:
  assumes "unat prevIndex = length (elements (root a))"
  shows "DeepRemove_loop env h p a prevIndex
           = deep_remove_from_last env p a h (rev (elements (root a)))"
  using assms
proof (induction env h p a prevIndex rule: DeepRemove_loop.induct)
  case (1 env h p a prevIndex)
  show ?case
  proof (cases "0 < prevIndex")
    case False
    then have "prevIndex = 0" by (simp add: word_gt_0)
    with "1.prems" have "elements (root a) = []" by simp
    with False show ?thesis by (simp add: DeepRemove_loop.simps)
  next
    case True
    then have pos: "0 < unat prevIndex" by (simp add: word_gt_0 unat_gt_0)
    with "1.prems" obtain xs s where els: "elements (root a) = xs @ [s]"
      by (cases "elements (root a)" rule: rev_cases) auto
    from True have "unat (prevIndex - 1) = unat prevIndex - 1"
      by (simp add: unat_minus_one word_gt_0)
    with "1.prems" els have ui: "unat (prevIndex - 1) = length xs" by simp
    have idx: "prevIndex - 1 = of_nat (length xs)"
      using ui by (metis of_nat_unat ucast_id)
    have len: "length xs < 2 ^ 64"
      using ui unsigned_less[of "prevIndex - 1", where ?'a = nat] by simp
    have get: "BasicArrayDataSlab_Get (root a) (prevIndex - 1) = Inr s"
      using els ui by (simp add: BasicArrayDataSlab_Get_def)
    obtain a1 h1 r where rm: "BasicArray_Remove env h a (prevIndex - 1) = (a1, h1, r)"
      by (cases "BasicArray_Remove env h a (prevIndex - 1)") auto
    from BasicArray_Remove_last[OF els len rm[unfolded idx]] have els1: "elements (root a1) = xs" .
    have lhs: "DeepRemove_loop env h p a prevIndex =
      (case r of
         Inl e \<Rightarrow> (a1, h1, Some e)
       | Inr val \<Rightarrow>
           (case at_storage h1 p (Value_DeepRemove env val) of
              (h2, Some e) \<Rightarrow> (a1, h2, Some e)
            | (h2, None) \<Rightarrow>
                (case at_storage h2 p (Storable_DeepRemove env s) of
                   (h3, Some e) \<Rightarrow> (a1, h3, Some e)
                 | (h3, None) \<Rightarrow> DeepRemove_loop env h3 p a1 (prevIndex - 1))))"
      using True get rm by (subst DeepRemove_loop.simps) (simp add: Let_def)
    have rhs: "deep_remove_from_last env p a h (rev (elements (root a))) =
      (case r of
         Inl e \<Rightarrow> (a1, h1, Some e)
       | Inr val \<Rightarrow>
           (case at_storage h1 p (Value_DeepRemove env val) of
              (h2, Some e) \<Rightarrow> (a1, h2, Some e)
            | (h2, None) \<Rightarrow>
                (case at_storage h2 p (Storable_DeepRemove env s) of
                   (h3, Some e) \<Rightarrow> (a1, h3, Some e)
                 | (h3, None) \<Rightarrow> deep_remove_from_last env p a1 h3 (rev xs))))"
      using els rm[unfolded idx] by simp
    show ?thesis
    proof (cases r)
      case (Inl e)
      with lhs rhs show ?thesis by simp
    next
      case (Inr val)
      obtain h2 r2 where v: "at_storage h1 p (Value_DeepRemove env val) = (h2, r2)"
        by (cases "at_storage h1 p (Value_DeepRemove env val)") auto
      show ?thesis
      proof (cases r2)
        case (Some e)
        with lhs rhs Inr v show ?thesis by simp
      next
        case None
        obtain h3 r3 where st: "at_storage h2 p (Storable_DeepRemove env s) = (h3, r3)"
          by (cases "at_storage h2 p (Storable_DeepRemove env s)") auto
        show ?thesis
        proof (cases r3)
          case (Some e)
          with lhs rhs Inr v None st show ?thesis by simp
        next
          case n3: None
          have "DeepRemove_loop env h3 p a1 (prevIndex - 1)
                  = deep_remove_from_last env p a1 h3 (rev (elements (root a1)))"
          proof (rule "1.IH"[OF True refl get])
            show "(a1, h1, r) = BasicArray_Remove env h a (prevIndex - 1)" using rm by simp
            show "(h1, r) = (h1, r)" ..
            show "r = Inr val" by (rule Inr)
            show "(h2, r2) = at_storage h1 p (Value_DeepRemove env val)" using v by simp
            show "r2 = None" by (rule None)
            show "(h3, r3) = at_storage h2 p (Storable_DeepRemove env s)" using st by simp
            show "r3 = None" by (rule n3)
            show "unat (prevIndex - 1) = length (elements (root a1))" using ui els1 by simp
          qed
          with lhs rhs Inr v None st n3 els1 show ?thesis by simp
        qed
      qed
    qed
  qed
qed

lemma deep_remove_from_last_done:
  assumes "deep_remove_from_last env p a h ys = (a', h', None)"
    and "ys = rev (elements (root a))"
    and "length ys < 2 ^ 64"
  shows "elements (root a') = [] \<and> id_hdr (header (root a')) = id_hdr (header (root a))"
  using assms
proof (induction ys arbitrary: a h)
  case Nil
  then show ?case by simp
next
  case (Cons s remaining)
  from Cons.prems(2) have els: "elements (root a) = rev remaining @ [s]"
    by (metis rev.simps(2) rev_rev_ident)
  from Cons.prems(3) have len: "length (rev remaining) < 2 ^ 64" by simp
  obtain a1 h1 r where rm: "BasicArray_Remove env h a (of_nat (length remaining)) = (a1, h1, r)"
    by (cases "BasicArray_Remove env h a (of_nat (length remaining))") auto
  then have rm': "BasicArray_Remove env h a (of_nat (length (rev remaining))) = (a1, h1, r)" by simp
  from BasicArray_Remove_last[OF els len rm'] have els1: "elements (root a1) = rev remaining" .
  from BasicArray_Remove_root(1)[OF rm]
  have id1: "id_hdr (header (root a1)) = id_hdr (header (root a))"
    using Remove_keeps_id[of env "root a" "h (storage a)" "of_nat (length remaining)"]
    by (metis prod.collapse)
  from Cons.prems(1) rm obtain h3 where
    rest: "deep_remove_from_last env p a1 h3 remaining = (a', h', None)"
    by (auto split: sum.splits prod.splits option.splits)
  from Cons.IH[OF rest] els1 len id1 show ?case by simp
qed

section \<open>The example instance, evaluated\<close>

lemma example_store_ok: "snd (Store example_env st i sl) = None"
  by (simp add: example_env_def)

lemma example_new:
  "NewBasicArrayDataSlab example_env example_storage0 0x0102030405060708
     = (example_storage0\<lparr>nextIndex := 1\<rparr>, Inr (example_slab []))"
  by (simp add: NewBasicArrayDataSlab_def example_env_def example_storage0_def example_slab_def
      example_id_def basicArrayDataSlabPrefixSize_def)

lemma example_run_empty:
  "run_slab_ops example_env (example_slab []) (example_storage0\<lparr>nextIndex := 1\<rparr>) []
     = (example_slab [], example_storage0\<lparr>nextIndex := 1\<rparr>, None)"
  by simp

lemma example_run:
  "run_slab_ops example_env (example_slab []) (example_storage0\<lparr>nextIndex := 1\<rparr>)
     [OpInsert 0 5, OpInsert 1 6, OpSet 0 7, OpGet 1, OpRemove 0]
   = (example_slab [6],
      \<lparr>slabs = [(example_id, BasicArrayDataSlabPtr (example_slab [6]))], nextIndex = 1, removed = []\<rparr>,
      None)"
  by (simp add: BasicArrayDataSlab_Insert_def BasicArrayDataSlab_Set_def BasicArrayDataSlab_Remove_def
      BasicArrayDataSlab_Get_def insert_elements_def remove_elements_def go_copy_def
      example_env_def example_slab_def example_storage0_def example_id_def Let_def)

lemma example_encode_empty:
  "BasicArrayDataSlab_Encode example_env (example_slab [])
     = Inr [0x00, 0x83, 0x9b, 0, 0, 0, 0, 0, 0, 0, 0]"
  by (simp add: BasicArrayDataSlab_Encode_def BigEndian_PutUint64_def example_env_def example_slab_def)



lemma example_new_array:
  "NewBasicArray example_env (\<lambda>p. example_storage0) 0 0x0102030405060708
     = ((\<lambda>p. example_storage0)(0 := example_storage0\<lparr>nextIndex := 1\<rparr>),
        Inr \<lparr>storage = 0, root = example_slab []\<rparr>)"
  by (simp add: NewBasicArray_def at_storage_def example_new)

lemma example_grow_and_shrink:
  "fst (run_array_ops example_env
         (\<lparr>storage = 0, root = example_slab []\<rparr>,
          (\<lambda>p. example_storage0)(0 := example_storage0\<lparr>nextIndex := 1\<rparr>))
         [ArrAppend 4, ArrAppend 5, ArrInsert 0 6, ArrSet 1 7, ArrGet 2, ArrRemove 0, ArrRemove 1, ArrRemove 0])
     = \<lparr>storage = 0, root = example_slab []\<rparr>"
  by (simp add: run_array_ops_def BasicArray_Append_def BasicArray_Insert_def BasicArray_Set_def
      BasicArray_Get_def BasicArray_Remove_def BasicArray_Address_def BasicArray_StorageID_def
      BasicArrayDataSlab_ID_def BasicArrayDataSlab_Insert_def BasicArrayDataSlab_Set_def
      BasicArrayDataSlab_Remove_def BasicArrayDataSlab_Get_def insert_elements_def
      remove_elements_def go_copy_def at_storage_def Let_def
      example_env_def example_slab_def example_storage0_def example_id_def)

lemma example_deep_remove:
  "BasicArray_DeepRemove example_env (\<lambda>p. example_storage1) 0 example_array
     = (\<lparr>storage = 0, root = example_slab []\<rparr>,
        (\<lambda>p. example_storage1)
          (0 := \<lparr>slabs = [(example_other_id, OtherSlab ())], nextIndex = 2,
                 removed = [DeepRemovedValue 3, DeepRemovedStorable 3,
                            DeepRemovedValue 2, DeepRemovedStorable 2,
                            DeepRemovedValue 1, DeepRemovedStorable 1]\<rparr>),
        None)"
proof -
  have cnt: "unat (BasicArray_Count example_array) = length (elements (root example_array))"
    by (simp add: BasicArray_Count_def BasicArrayDataSlab_Count_def example_array_def example_slab_def)
  show ?thesis
    unfolding BasicArray_DeepRemove_def Let_def loop_refines[OF cnt]
    by (simp add: example_array_def example_slab_def example_storage1_def example_env_def
        example_id_def example_other_id_def
        BasicArray_Remove_def BasicArrayDataSlab_Remove_def remove_elements_def go_copy_def
        BasicArrayDataSlab_DeepRemove_def BasicArrayDataSlab_ID_def at_storage_def Let_def)
qed




lemma example_run_inserts:
  "\<exists>a' st'. run_slab_ops example_env (example_slab []) (example_storage0\<lparr>nextIndex := 1\<rparr>)
              (replicate n (OpInsert 0 7)) = (a', st', None)
      \<and> elements a' = replicate n 7
      \<and> count_hdr (header a') = of_nat n"
proof -
  from run_insert_front_full[of example_env "example_slab []" "example_storage0\<lparr>nextIndex := 1\<rparr>"
      "replicate n 7", OF example_store_ok]
  obtain a' st' where run: "run_slab_ops example_env (example_slab []) (example_storage0\<lparr>nextIndex := 1\<rparr>)
              (map (OpInsert 0) (replicate n 7)) = (a', st', None)"
    and el: "elements a' = rev (replicate n 7) @ elements (example_slab [])"
    by blast
  from el have el': "elements a' = replicate n 7" by (simp add: example_slab_def)
  from run_slab_ops_inv[OF New_slab_inv[OF example_new] run] el'
  have "count_hdr (header a') = of_nat n" by (simp add: slab_inv_def)
  with run el' show ?thesis by auto
qed

text \<open>The expected bytes of \<open>TestArrayEncodeDecode\<close>, slab by slab, as the model of the Array data slab gives them.\<close>

lemma test_vector_empty:
  "ArrayDataSlab_Encode example_env [0x00, 0x80, 0x81, 0x18, 0x2a] 0x80 None []
     = Inr [0x00, 0x80, 0x81, 0x18, 0x2a, 0x00, 0x80, 0x99, 0x00, 0x00]"
  by (simp add: ArrayDataSlab_Encode_def BigEndian_PutUint16_def)

lemma test_vector_dataslab_as_root:
  "ArrayDataSlab_Encode example_env [0x00, 0x80, 0x81, 0x18, 0x2a] 0x80 None [0]
     = Inr [0x00, 0x80, 0x81, 0x18, 0x2a, 0x00, 0x80, 0x99, 0x00, 0x01, 0xd8, 0xa4, 0x00]"
  by (simp add: ArrayDataSlab_Encode_def BigEndian_PutUint16_def example_env_def)

lemma test_vector_nested_root:
  "ArrayDataSlab_Encode example_env [0x00, 0x80, 0x81, 0x18, 0x2b] 0x80 None [0]
     = Inr [0x00, 0x80, 0x81, 0x18, 0x2b, 0x00, 0x80, 0x99, 0x00, 0x01, 0xd8, 0xa4, 0x00]"
  by (simp add: ArrayDataSlab_Encode_def BigEndian_PutUint16_def example_env_def)

lemma encoded_env_elements: "encode_elements encoded_env xs = Inr (concat xs)"
  by (induction xs) (simp_all add: encoded_env_def)

lemma test_vector_first_data_slab:
  "ArrayDataSlab_Encode encoded_env [] 0x00 (Some \<lparr>Address = 0x0102030405060708, Index = 3\<rparr>)
       (replicate 9 (0x76 # replicate 22 0x61))
     = Inr ([0x00, 0x00,
             0x01, 0x02, 0x03, 0x04, 0x05, 0x06, 0x07, 0x08, 0x00, 0x00, 0x00, 0x00, 0x00, 0x00, 0x00, 0x03,
             0x99, 0x00, 0x09]
            @ concat (replicate 9 (0x76 # replicate 22 0x61)))"
  by (simp add: ArrayDataSlab_Encode_def encoded_env_elements BigEndian_PutUint16_def
      StorageID_bytes_def BigEndian_PutUint64_def)

lemma test_vector_second_data_slab:
  "ArrayDataSlab_Encode encoded_env [] 0x40 (Some StorageIDUndefined)
       (replicate 10 (0x76 # replicate 22 0x61)
        @ [[0xd8, 0xff, 0x50, 0x01, 0x02, 0x03, 0x04, 0x05, 0x06, 0x07, 0x08,
            0x00, 0x00, 0x00, 0x00, 0x00, 0x00, 0x00, 0x04]])
     = Inr ([0x00, 0x40,
             0x00, 0x00, 0x00, 0x00, 0x00, 0x00, 0x00, 0x00, 0x00, 0x00, 0x00, 0x00, 0x00, 0x00, 0x00, 0x00,
             0x99, 0x00, 0x0b]
            @ concat (replicate 10 (0x76 # replicate 22 0x61))
            @ [0xd8, 0xff, 0x50, 0x01, 0x02, 0x03, 0x04, 0x05, 0x06, 0x07, 0x08,
               0x00, 0x00, 0x00, 0x00, 0x00, 0x00, 0x00, 0x04])"
  by (simp add: ArrayDataSlab_Encode_def encoded_env_elements BigEndian_PutUint16_def
      StorageID_bytes_def BigEndian_PutUint64_def StorageIDUndefined_def)

section \<open>Header size and encoded length (C1)\<close>

text \<open>
  Claim C1 says that \<open>header.size\<close> is the byte length of the output of \<open>Encode\<close> on
  every slab reached from a new empty slab by successful \<open>Insert\<close>, \<open>Set\<close> and \<open>Remove\<close>
  operations. The code does not do that: \<open>basicArrayDataSlabPrefixSize\<close> is 9, while
  \<open>Encode\<close> writes 11 bytes before the elements (version, flag, and a nine-byte array
  head). When every element's \<open>ByteSize\<close> is the length of its encoding, the encoded
  length is \<open>header.size + 2\<close> (as a \<open>uint32\<close>) on every such slab, so the two are never
  equal; the new empty slab has \<open>size\<close> 9 and an encoding of 11 bytes.
\<close>

theorem C1_size_is_two_short:
  assumes new: "NewBasicArrayDataSlab env st address = (st1, Inr a0)"
    and run: "run_slab_ops env a0 st1 ops = (a', st', None)"
    and bytesize: "\<forall>s\<in>set (elements a'). \<forall>bs. Encode env s = Inr bs \<longrightarrow> ByteSize env s = of_nat (length bs)"
    and enc: "BasicArrayDataSlab_Encode env a' = Inr bytes"
  shows "of_nat (length bytes) = size_hdr (header a') + 2
       \<and> size_hdr (header a') \<noteq> of_nat (length bytes)
       \<and> size_hdr (header a0) = 9
       \<and> (\<exists>bytes0. BasicArrayDataSlab_Encode env a0 = Inr bytes0 \<and> length bytes0 = 11)"
proof -
  from run_slab_ops_inv[OF New_slab_inv[OF new] run]
  have size: "size_hdr (header a') = 9 + sum_list (map (ByteSize env) (elements a'))"
    by (simp add: slab_inv_def basicArrayDataSlabPrefixSize_def)
  from enc obtain body where body: "encode_elements env (elements a') = Inr body"
    and bytes: "bytes = [0x00, maskBasicArray env OR maskSlabRoot env, 0x9b]
                 @ BigEndian_PutUint64 (of_nat (length (elements a'))) @ body"
    unfolding Encode_bytes by blast
  from bytes have "length bytes = 11 + length body" by (simp add: PutUint64_length)
  then have "(of_nat (length bytes) :: uint32) = 11 + of_nat (length body)" by simp
  with encode_elements_length[OF body bytesize] size
  have eq: "of_nat (length bytes) = size_hdr (header a') + 2" by simp
  then have neq: "size_hdr (header a') \<noteq> of_nat (length bytes)" by simp
  have "elements a0 = []" by (rule New_slab(1)[OF new])
  then have "BasicArrayDataSlab_Encode env a0
               = Inr ([0x00, maskBasicArray env OR maskSlabRoot env, 0x9b] @ BigEndian_PutUint64 0 @ [])"
    unfolding Encode_bytes by simp
  then have "\<exists>bytes0. BasicArrayDataSlab_Encode env a0 = Inr bytes0 \<and> length bytes0 = 11"
    by (simp add: PutUint64_length)
  with eq neq New_slab(3)[OF new] show ?thesis by blast
qed

theorem C1_size_is_two_short_witness:
  "size_hdr (header (example_slab [])) = 9
   \<and> BasicArrayDataSlab_Encode example_env (example_slab [])
       = Inr [0x00, 0x83, 0x9b, 0, 0, 0, 0, 0, 0, 0, 0]
   \<and> size_hdr (header (example_slab [])) \<noteq> of_nat (length [0x00, 0x83, 0x9b, 0, 0, 0, 0, 0, 0, 0, 0 :: byte])"
proof -
  have bs: "\<forall>s\<in>set (elements (example_slab [])). \<forall>bs. Encode example_env s = Inr bs
              \<longrightarrow> ByteSize example_env s = of_nat (length bs)"
    by (simp add: example_slab_def)
  from C1_size_is_two_short [OF example_new example_run_empty bs example_encode_empty]
  show ?thesis using example_encode_empty by simp
qed

section \<open>Encode, decode, encode again (C2)\<close>




section \<open>Index bounds (C3)\<close>

text \<open>
  Claim C3. On a slab with \<open>length (elements a)\<close> elements and a storage whose \<open>Store\<close>
  succeeds, \<open>Get\<close>, \<open>Set\<close> and \<open>Remove\<close> return an error exactly when the index is at
  least the number of elements, \<open>Insert\<close> exactly when the index is greater than it;
  and when \<open>Set\<close>, \<open>Remove\<close> or \<open>Insert\<close> returns the out-of-bounds error, the slab
  (elements, count and size) is as it was. \<open>Get\<close> never changes the slab.
\<close>

theorem C3_out_of_bounds:
  assumes store_ok: "\<And>st i sl. snd (Store env st i sl) = None"
  shows "((\<exists>e. BasicArrayDataSlab_Get a index = Inl e) = (length (elements a) \<le> unat index))
       \<and> ((\<exists>a' st' e. BasicArrayDataSlab_Set env a st0 index v = (a', st', Some e))
            = (length (elements a) \<le> unat index))
       \<and> ((\<exists>a' st' e. BasicArrayDataSlab_Remove env a st0 index = (a', st', Inl e))
            = (length (elements a) \<le> unat index))
       \<and> ((\<exists>a' st' e. BasicArrayDataSlab_Insert env a st0 index v = (a', st', Some e))
            = (length (elements a) < unat index))
       \<and> (\<forall>a' st'. BasicArrayDataSlab_Set env a st0 index v = (a', st', Some OutOfBounds)
            \<longrightarrow> a' = a)
       \<and> (\<forall>a' st'. BasicArrayDataSlab_Remove env a st0 index = (a', st', Inl OutOfBounds)
            \<longrightarrow> a' = a)
       \<and> (\<forall>a' st'. BasicArrayDataSlab_Insert env a st0 index v = (a', st', Some OutOfBounds)
            \<longrightarrow> a' = a)"
proof -
  have get: "(\<exists>e. BasicArrayDataSlab_Get a index = Inl e) = (length (elements a) \<le> unat index)"
    by (simp add: BasicArrayDataSlab_Get_def)
  have set: "(\<exists>a' st' e. BasicArrayDataSlab_Set env a st0 index v = (a', st', Some e))
            = (length (elements a) \<le> unat index)"
  proof (cases "length (elements a) \<le> unat index")
    case True
    then show ?thesis by (simp add: oob_unchanged)
  next
    case False
    then have "unat index < length (elements a)" by simp
    from Set_in_bounds[OF this refl, of env st0 v] show ?thesis
      using False by (auto simp: store_ok prod_eq_iff)
  qed
  have rem: "(\<exists>a' st' e. BasicArrayDataSlab_Remove env a st0 index = (a', st', Inl e))
            = (length (elements a) \<le> unat index)"
  proof (cases "length (elements a) \<le> unat index")
    case True
    then show ?thesis by (simp add: oob_unchanged)
  next
    case False
    then have "unat index < length (elements a)" by simp
    from Remove_in_bounds[OF this refl, of env st0] show ?thesis
      using False by (auto simp: store_ok prod_eq_iff)
  qed
  have ins: "(\<exists>a' st' e. BasicArrayDataSlab_Insert env a st0 index v = (a', st', Some e))
            = (length (elements a) < unat index)"
  proof (cases "length (elements a) < unat index")
    case True
    then show ?thesis by (simp add: oob_unchanged)
  next
    case False
    then have "unat index \<le> length (elements a)" by simp
    from Insert_in_bounds[OF this refl, of env st0 v] show ?thesis
      using False by (auto simp: store_ok prod_eq_iff)
  qed
  have set': "\<forall>a' st'. BasicArrayDataSlab_Set env a st0 index v = (a', st', Some OutOfBounds)
            \<longrightarrow> a' = a"
  proof (cases "length (elements a) \<le> unat index")
    case True
    then show ?thesis by (simp add: oob_unchanged)
  next
    case False
    then have "unat index < length (elements a)" by simp
    from Set_in_bounds[OF this refl, of env st0 v] show ?thesis
      by (auto simp: store_ok prod_eq_iff)
  qed
  have rem': "\<forall>a' st'. BasicArrayDataSlab_Remove env a st0 index = (a', st', Inl OutOfBounds)
            \<longrightarrow> a' = a"
  proof (cases "length (elements a) \<le> unat index")
    case True
    then show ?thesis by (simp add: oob_unchanged)
  next
    case False
    then have "unat index < length (elements a)" by simp
    from Remove_in_bounds[OF this refl, of env st0] show ?thesis
      by (auto simp: store_ok prod_eq_iff)
  qed
  have ins': "\<forall>a' st'. BasicArrayDataSlab_Insert env a st0 index v = (a', st', Some OutOfBounds)
            \<longrightarrow> a' = a"
  proof (cases "length (elements a) < unat index")
    case True
    then show ?thesis by (simp add: oob_unchanged)
  next
    case False
    then have "unat index \<le> length (elements a)" by simp
    from Insert_in_bounds[OF this refl, of env st0 v] show ?thesis
      by (auto simp: store_ok prod_eq_iff)
  qed
  from get set rem ins set' rem' ins' show ?thesis by blast
qed

theorem C3_out_of_bounds_witness:
  "(\<exists>e. BasicArrayDataSlab_Get (example_slab [1, 2, 3]) 3 = Inl e)
   \<and> (\<exists>a' st' e. BasicArrayDataSlab_Set example_env (example_slab [1, 2, 3]) example_storage0 3 7
          = (a', st', Some e))
   \<and> (\<exists>a' st' e. BasicArrayDataSlab_Remove example_env (example_slab [1, 2, 3]) example_storage0 3
          = (a', st', Inl e))
   \<and> \<not> (\<exists>a' st' e. BasicArrayDataSlab_Insert example_env (example_slab [1, 2, 3]) example_storage0 3 7
          = (a', st', Some e))
   \<and> \<not> (\<exists>e. BasicArrayDataSlab_Get (example_slab [1, 2, 3]) 2 = Inl e)"
  using C3_out_of_bounds [of example_env "example_slab [1, 2, 3]" 3 example_storage0 7,
      OF example_store_ok]
    C3_out_of_bounds [of example_env "example_slab [1, 2, 3]" 2 example_storage0 7,
      OF example_store_ok]
  by (simp add: example_slab_def)

section \<open>Insert shifts the tail up (C4)\<close>

text \<open>
  Claim C4. \<open>Insert(index, v)\<close> with \<open>index\<close> at most the number of elements puts \<open>v\<close>
  at \<open>index\<close>, keeps the elements before it and moves every element from \<open>index\<close> on
  up by one. In particular, starting from a new empty slab (with a storage whose
  \<open>Store\<close> succeeds), inserting \<open>vs ! (n - 1)\<close>, ..., \<open>vs ! 0\<close> at index 0 in this order
  succeeds, and afterwards \<open>Get k\<close> returns \<open>vs ! k\<close> for every \<open>k < n\<close>.
\<close>

theorem C4_insert_shifts:
  assumes new: "NewBasicArrayDataSlab env st0 address = (storage0, Inr a0)"
    and store_ok: "\<And>st i sl. snd (Store env st i sl) = None"
  shows "(unat index \<le> length (elements a) \<longrightarrow>
            elements (fst (BasicArrayDataSlab_Insert env a st index v))
              = take (unat index) (elements a) @ v # drop (unat index) (elements a)
          \<and> BasicArrayDataSlab_Get (fst (BasicArrayDataSlab_Insert env a st index v)) index = Inr v
          \<and> (\<forall>k. k < unat index \<longrightarrow>
                elements (fst (BasicArrayDataSlab_Insert env a st index v)) ! k = elements a ! k)
          \<and> (\<forall>k. unat index \<le> k \<and> k < length (elements a) \<longrightarrow>
                elements (fst (BasicArrayDataSlab_Insert env a st index v)) ! Suc k = elements a ! k))
       \<and> (\<exists>a' st'. run_slab_ops env a0 storage0 (map (OpInsert 0) (rev vs)) = (a', st', None)
             \<and> (\<forall>k. unat k < length vs \<longrightarrow> BasicArrayDataSlab_Get a' k = Inr (vs ! unat k)))"
proof -
  have part1: "elements (fst (BasicArrayDataSlab_Insert env a st index v))
              = take (unat index) (elements a) @ v # drop (unat index) (elements a)"
    if "unat index \<le> length (elements a)"
    using Insert_in_bounds[OF that refl, of env st v] by simp
  have part2: "BasicArrayDataSlab_Get (fst (BasicArrayDataSlab_Insert env a st index v)) index = Inr v"
    if "unat index \<le> length (elements a)"
    using part1[OF that] that by (simp add: BasicArrayDataSlab_Get_def nth_append)
  have part3: "elements (fst (BasicArrayDataSlab_Insert env a st index v)) ! k = elements a ! k"
    if "unat index \<le> length (elements a)" and "k < unat index" for k
    using part1[OF that(1)] that by (simp add: nth_append)
  have part4: "elements (fst (BasicArrayDataSlab_Insert env a st index v)) ! Suc k = elements a ! k"
    if "unat index \<le> length (elements a)" and "unat index \<le> k" and "k < length (elements a)" for k
    using part1[OF that(1)] that by (simp add: nth_append Suc_diff_le)
  from run_insert_front_full[of env a0 storage0 "rev vs", OF store_ok]
  obtain a' st' where run: "run_slab_ops env a0 storage0 (map (OpInsert 0) (rev vs)) = (a', st', None)"
    and el: "elements a' = rev (rev vs) @ elements a0"
    by blast
  from el New_slab(1)[OF new] have "elements a' = vs" by simp
  then have "\<forall>k. unat k < length vs \<longrightarrow> BasicArrayDataSlab_Get a' k = Inr (vs ! unat k)"
    by (simp add: BasicArrayDataSlab_Get_def)
  with run part1 part2 part3 part4 show ?thesis by blast
qed

theorem C4_insert_shifts_witness:
  "(\<exists>a' st'. run_slab_ops example_env (example_slab []) (example_storage0\<lparr>nextIndex := 1\<rparr>)
                (map (OpInsert 0) (rev [10, 11, 12])) = (a', st', None)
      \<and> BasicArrayDataSlab_Get a' 0 = Inr 10
      \<and> BasicArrayDataSlab_Get a' 1 = Inr 11
      \<and> BasicArrayDataSlab_Get a' 2 = Inr 12)
   \<and> elements (fst (BasicArrayDataSlab_Insert example_env (example_slab [1, 2, 3]) example_storage0 1 9))
       = [1, 9, 2, 3]"
proof -
  note inst = C4_insert_shifts [OF example_new example_store_ok,
      of 1 "example_slab [1, 2, 3]" example_storage0 9 "[10, 11, 12]"]
  from inst obtain a' st' where
    run: "run_slab_ops example_env (example_slab []) (example_storage0\<lparr>nextIndex := 1\<rparr>)
                (map (OpInsert 0) (rev [10, 11, 12])) = (a', st', None)"
    and get: "\<And>k. unat k < length [10, 11, 12 :: byte]
                \<Longrightarrow> BasicArrayDataSlab_Get a' k = Inr ([10, 11, 12] ! unat k)"
    by blast
  have "BasicArrayDataSlab_Get a' 0 = Inr 10" using get[of 0] by simp
  moreover have "BasicArrayDataSlab_Get a' 1 = Inr 11" using get[of 1] by simp
  moreover have "BasicArrayDataSlab_Get a' 2 = Inr 12" using get[of 2] by simp
  moreover have "elements (fst (BasicArrayDataSlab_Insert example_env (example_slab [1, 2, 3])
                    example_storage0 1 9)) = [1, 9, 2, 3]"
    using inst by (simp add: example_slab_def)
  ultimately show ?thesis using run by blast
qed

section \<open>Layout of the encoding of an array data slab (C5)\<close>

text \<open>
  Claim C5. The encoding of an array data slab is, after the extra data section of a
  root slab, the version byte \<open>0x00\<close> and one flag byte, then (for a slab that is not
  the root) the 16 bytes of the next slab's id, then a CBOR definite-length array head
  in the three-byte form \<open>0x99 XX XX\<close> (\<open>XX XX\<close> the number of elements as a big-endian
  16-bit integer), followed by the encoding of each element in order.
\<close>

theorem C5_array_data_slab_layout:
  assumes "ArrayDataSlab_Encode env extraData flag nextID elems = Inr bytes"
  shows "\<exists>parts nextBytes hi lo.
           map (Encode env) elems = map Inr parts
         \<and> bytes = extraData @ [0x00, flag] @ nextBytes @ [0x99, hi, lo] @ concat parts
         \<and> (nextID = None \<longrightarrow> nextBytes = [])
         \<and> (\<forall>sid. nextID = Some sid \<longrightarrow> nextBytes = StorageID_bytes sid \<and> length nextBytes = 16)
         \<and> 256 * unat hi + unat lo = length elems mod 65536"
proof -
  let ?next = "case nextID of None \<Rightarrow> [] | Some sid \<Rightarrow> StorageID_bytes sid"
  from assms obtain body where body: "encode_elements env elems = Inr body"
    and bytes: "bytes = extraData @ [0x00, flag] @ ?next
                 @ [0x99] @ BigEndian_PutUint16 (of_nat (length elems)) @ body"
    by (auto simp: ArrayDataSlab_Encode_def split: sum.splits)
  from encode_elements_parts[OF body] obtain parts where
    parts: "map (Encode env) elems = map Inr parts" "body = concat parts" by blast
  from PutUint16_bytes[of "of_nat (length elems)"] obtain hi lo where
    head: "BigEndian_PutUint16 (of_nat (length elems)) = [hi, lo]"
    and cnt: "256 * unat hi + unat lo = unat (of_nat (length elems) :: 16 word)"
    by blast
  from cnt have cnt': "256 * unat hi + unat lo = length elems mod 65536"
    by (simp add: unat_of_nat)
  have n1: "nextID = None \<longrightarrow> ?next = []" by simp
  have n2: "\<forall>sid. nextID = Some sid \<longrightarrow> ?next = StorageID_bytes sid \<and> length ?next = 16"
    by (simp add: StorageID_bytes_length)
  from bytes head parts(2)
  have "bytes = extraData @ [0x00, flag] @ ?next @ [0x99, hi, lo] @ concat parts" by simp
  with parts(1) n1 n2 cnt' show ?thesis by blast
qed

theorem C5_array_data_slab_layout_witness:
  "\<exists>parts hi lo.
      map (Encode example_env) [0] = map Inr parts
    \<and> [0x00, 0x80, 0x81, 0x18, 0x2a, 0x00, 0x80, 0x99, 0x00, 0x01, 0xd8, 0xa4, 0x00]
        = [0x00, 0x80, 0x81, 0x18, 0x2a] @ [0x00, 0x80] @ [0x99, hi, lo] @ concat parts
    \<and> 256 * unat hi + unat lo = 1"
proof -
  from C5_array_data_slab_layout [OF test_vector_dataslab_as_root]
  obtain parts nextBytes hi lo where
    "map (Encode example_env) [0] = map Inr parts"
    and "[0x00, 0x80, 0x81, 0x18, 0x2a, 0x00, 0x80, 0x99, 0x00, 0x01, 0xd8, 0xa4, 0x00]
        = [0x00, 0x80, 0x81, 0x18, 0x2a] @ [0x00, 0x80] @ nextBytes @ [0x99, hi, lo] @ concat parts"
    and "nextBytes = []"
    and "256 * unat hi + unat lo = length [0 :: byte] mod 65536"
    by blast
  then show ?thesis by auto
qed

text \<open>
  \<open>BasicArrayDataSlab.Encode\<close> has the same layout with another array head: \<open>0x9b\<close>
  and the number of elements as eight big-endian bytes.
\<close>

lemma BasicArrayDataSlab_Encode_layout:
  assumes "BasicArrayDataSlab_Encode env a = Inr bytes"
  shows "\<exists>parts. map (Encode env) (elements a) = map Inr parts
           \<and> bytes = [0x00, maskBasicArray env OR maskSlabRoot env]
                 @ [0x9b] @ BigEndian_PutUint64 (of_nat (length (elements a)))
                 @ concat parts"
proof -
  from assms obtain body where body: "encode_elements env (elements a) = Inr body"
    and bytes: "bytes = [0x00, maskBasicArray env OR maskSlabRoot env, 0x9b]
                 @ BigEndian_PutUint64 (of_nat (length (elements a))) @ body"
    unfolding Encode_bytes by blast
  from encode_elements_parts[OF body] obtain parts where
    "map (Encode env) (elements a) = map Inr parts" and "body = concat parts" by blast
  with bytes show ?thesis by auto
qed

section \<open>The root id does not change (C6)\<close>

text \<open>
  Claim C6. \<open>StorageID()\<close> of a \<open>BasicArray\<close> is the same before and after any sequence
  of \<open>Get\<close>, \<open>Set\<close>, \<open>Insert\<close>, \<open>Append\<close> and \<open>Remove\<close> operations, whatever they return;
  sequences that grow the array from empty and remove every element again are among
  them.
\<close>

theorem C6_root_id_stable:
  "BasicArray_StorageID (fst (run_array_ops env (a, h) ops)) = BasicArray_StorageID a"
proof (induction ops arbitrary: a h)
  case Nil
  then show ?case by (simp add: run_array_ops_def)
next
  case (Cons x xs)
  obtain a1 h1 where step: "apply_array_op env (a, h) x = (a1, h1)"
    by (cases "apply_array_op env (a, h) x") auto
  with apply_array_op_keeps_id[of env a h x] have "BasicArray_StorageID a1 = BasicArray_StorageID a"
    by simp
  moreover have "run_array_ops env (a, h) (x # xs) = run_array_ops env (a1, h1) xs"
    using step by (simp add: run_array_ops_def)
  ultimately show ?case using Cons.IH[of a1 h1] by simp
qed

theorem C6_root_id_stable_witness:
  "BasicArray_StorageID (fst (run_array_ops example_env
         (\<lparr>storage = 0, root = example_slab []\<rparr>,
          (\<lambda>p. example_storage0)(0 := example_storage0\<lparr>nextIndex := 1\<rparr>))
         [ArrAppend 4, ArrAppend 5, ArrInsert 0 6, ArrSet 1 7, ArrGet 2, ArrRemove 0, ArrRemove 1, ArrRemove 0]))
     = example_id
   \<and> elements (root (fst (run_array_ops example_env
         (\<lparr>storage = 0, root = example_slab []\<rparr>,
          (\<lambda>p. example_storage0)(0 := example_storage0\<lparr>nextIndex := 1\<rparr>))
         [ArrAppend 4, ArrAppend 5, ArrInsert 0 6, ArrSet 1 7, ArrGet 2, ArrRemove 0, ArrRemove 1, ArrRemove 0])))
     = []"
proof -
  have "BasicArray_StorageID \<lparr>storage = 0, root = example_slab []\<rparr> = example_id"
    by (simp add: BasicArray_StorageID_def BasicArrayDataSlab_ID_def example_slab_def)
  with C6_root_id_stable [of example_env "\<lparr>storage = 0, root = example_slab []\<rparr>"
      "(\<lambda>p. example_storage0)(0 := example_storage0\<lparr>nextIndex := 1\<rparr>)"
      "[ArrAppend 4, ArrAppend 5, ArrInsert 0 6, ArrSet 1 7, ArrGet 2, ArrRemove 0, ArrRemove 1, ArrRemove 0]"]
  have "BasicArray_StorageID (fst (run_array_ops example_env
         (\<lparr>storage = 0, root = example_slab []\<rparr>,
          (\<lambda>p. example_storage0)(0 := example_storage0\<lparr>nextIndex := 1\<rparr>))
         [ArrAppend 4, ArrAppend 5, ArrInsert 0 6, ArrSet 1 7, ArrGet 2, ArrRemove 0, ArrRemove 1, ArrRemove 0]))
     = example_id"
    by simp
  moreover have "elements (root \<lparr>storage = 0, root = example_slab []\<rparr>) = ([] :: byte list)"
    by (simp add: example_slab_def)
  ultimately show ?thesis by (simp only: example_grow_and_shrink simp_thms)
qed

section \<open>Opening an array by its root id (C7)\<close>

text \<open>
  Claim C7. \<open>NewBasicArrayWithRootID\<close> returns an error when the id is
  \<open>StorageIDUndefined\<close>, when the storage finds no slab with that id, and when the slab
  it finds is not a \<open>BasicArrayDataSlab\<close>; when the storage finds a
  \<open>BasicArrayDataSlab\<close>, the result is the \<open>BasicArray\<close> on that storage rooted at that
  slab. An error of \<open>Retrieve\<close> itself is handed on.
\<close>

theorem C7_open_with_root_id:
  "(sid = StorageIDUndefined \<longrightarrow>
      NewBasicArrayWithRootID env h p sid = (h, Inl InvalidStorageID))
   \<and> (sid \<noteq> StorageIDUndefined \<and> snd (Retrieve env (h p) sid) = Inr None \<longrightarrow>
      snd (NewBasicArrayWithRootID env h p sid) = Inl (SlabNotFound sid))
   \<and> (sid \<noteq> StorageIDUndefined \<and> snd (Retrieve env (h p) sid) = Inr (Some (OtherSlab other)) \<longrightarrow>
      snd (NewBasicArrayWithRootID env h p sid) = Inl (NotBasicArrayDataSlab sid))
   \<and> (sid \<noteq> StorageIDUndefined \<and> snd (Retrieve env (h p) sid) = Inl e \<longrightarrow>
      snd (NewBasicArrayWithRootID env h p sid) = Inl e)
   \<and> (sid \<noteq> StorageIDUndefined
        \<and> snd (Retrieve env (h p) sid) = Inr (Some (BasicArrayDataSlabPtr dataSlab)) \<longrightarrow>
      snd (NewBasicArrayWithRootID env h p sid) = Inr \<lparr>storage = p, root = dataSlab\<rparr>)"
  by (auto simp: NewBasicArrayWithRootID_def at_storage_def split: prod.splits)

theorem C7_open_with_root_id_witness:
  "NewBasicArrayWithRootID example_env (\<lambda>p. example_storage1) 0 StorageIDUndefined
     = (\<lambda>p. example_storage1, Inl InvalidStorageID)
   \<and> snd (NewBasicArrayWithRootID example_env (\<lambda>p. example_storage1) 0
           \<lparr>Address = 0x0102030405060708, Index = 3\<rparr>)
       = Inl (SlabNotFound \<lparr>Address = 0x0102030405060708, Index = 3\<rparr>)
   \<and> snd (NewBasicArrayWithRootID example_env (\<lambda>p. example_storage1) 0 example_other_id)
       = Inl (NotBasicArrayDataSlab example_other_id)
   \<and> snd (NewBasicArrayWithRootID example_env (\<lambda>p. example_storage1) 0 example_id)
       = Inr example_array"
proof -
  let ?h = "\<lambda>p::nat. example_storage1"
  let ?missing = "\<lparr>Address = 0x0102030405060708, Index = 3\<rparr>"
  have r1: "snd (Retrieve example_env (?h 0) ?missing) = Inr None"
    and r2: "snd (Retrieve example_env (?h 0) example_other_id) = Inr (Some (OtherSlab ()))"
    and r3: "snd (Retrieve example_env (?h 0) example_id)
               = Inr (Some (BasicArrayDataSlabPtr (example_slab [1, 2, 3])))"
    by (simp_all add: example_env_def example_storage1_def example_id_def example_other_id_def)
  have n1: "?missing \<noteq> StorageIDUndefined" and n2: "example_other_id \<noteq> StorageIDUndefined"
    and n3: "example_id \<noteq> StorageIDUndefined"
    by (simp_all add: StorageIDUndefined_def example_id_def example_other_id_def)
  from C7_open_with_root_id [of StorageIDUndefined example_env ?h 0]
  have "NewBasicArrayWithRootID example_env ?h 0 StorageIDUndefined = (?h, Inl InvalidStorageID)"
    by simp
  moreover from C7_open_with_root_id [of ?missing example_env ?h 0] r1 n1
  have "snd (NewBasicArrayWithRootID example_env ?h 0 ?missing) = Inl (SlabNotFound ?missing)"
    by simp
  moreover from C7_open_with_root_id [of example_other_id example_env ?h 0 "()"] r2 n2
  have "snd (NewBasicArrayWithRootID example_env ?h 0 example_other_id)
          = Inl (NotBasicArrayDataSlab example_other_id)"
    by simp
  moreover from C7_open_with_root_id [of example_id example_env ?h 0 _ _ "example_slab [1, 2, 3]"] r3 n3
  have "snd (NewBasicArrayWithRootID example_env ?h 0 example_id) = Inr example_array"
    by (simp add: example_array_def)
  ultimately show ?thesis by simp
qed

section \<open>DeepRemove (C8)\<close>

text \<open>
  Claim C8. When \<open>BasicArray.DeepRemove\<close> returns without an error, the array has no
  element left; what it did is \<open>deep_remove_from_last\<close> on the elements taken from the
  last index down to index 0 (each element removed from the array, then its stored
  value and then its storable deep-removed), all without an error, followed by a
  successful \<open>Remove\<close> of the root slab's id on the storage given to \<open>DeepRemove\<close>.
\<close>

theorem C8_deep_remove:
  assumes len: "length (elements (root a)) < 2 ^ 64"
    and ok: "BasicArray_DeepRemove env h p a = (a', h', None)"
  shows "elements (root a') = []
       \<and> (\<exists>h1. deep_remove_from_last env p a h (rev (elements (root a))) = (a', h1, None)
              \<and> at_storage h1 p (\<lambda>st. Remove env st (BasicArray_StorageID a)) = (h', None))"
proof -
  from len have cnt: "unat (BasicArray_Count a) = length (elements (root a))"
    by (simp add: BasicArray_Count_def BasicArrayDataSlab_Count_def of_nat_inverse)
  from ok obtain h1 where
    loop: "DeepRemove_loop env h p a (BasicArray_Count a) = (a', h1, None)"
    and rm: "at_storage h1 p (BasicArrayDataSlab_DeepRemove env (root a')) = (h', None)"
    by (auto simp: BasicArray_DeepRemove_def Let_def split: prod.splits option.splits)
  from loop loop_refines[OF cnt, where env = env and h = h and p = p]
  have spec: "deep_remove_from_last env p a h (rev (elements (root a))) = (a', h1, None)"
    by simp
  from deep_remove_from_last_done[OF spec refl] len
  have emp: "elements (root a') = []" and ident: "id_hdr (header (root a')) = id_hdr (header (root a))"
    by simp_all
  from ident have "BasicArrayDataSlab_DeepRemove env (root a')
                     = (\<lambda>st. Remove env st (BasicArray_StorageID a))"
    by (simp add: BasicArrayDataSlab_DeepRemove_def BasicArray_StorageID_def
        BasicArrayDataSlab_ID_def fun_eq_iff)
  with rm spec emp show ?thesis by auto
qed

theorem C8_deep_remove_witness:
  "\<exists>a' h'. BasicArray_DeepRemove example_env (\<lambda>p. example_storage1) 0 example_array = (a', h', None)
      \<and> elements (root a') = []
      \<and> removed (h' 0) = [DeepRemovedValue 3, DeepRemovedStorable 3,
                           DeepRemovedValue 2, DeepRemovedStorable 2,
                           DeepRemovedValue 1, DeepRemovedStorable 1]
      \<and> slabs (h' 0) = [(example_other_id, OtherSlab ())]"
proof -
  have len: "length (elements (root example_array)) < 2 ^ 64"
    by (simp add: example_array_def example_slab_def)
  from C8_deep_remove [OF len example_deep_remove]
  have "elements (root \<lparr>storage = 0, root = example_slab []\<rparr>) = []" by blast
  with example_deep_remove show ?thesis by simp
qed

section \<open>Count and length (C9)\<close>

text \<open>
  Claim C9, as stated, makes \<open>header.count\<close> equal to the length of the elements slice
  on every slab reached from a new empty slab by successful operations. \<open>header.count\<close>
  is a \<open>uint32\<close> and \<open>Insert\<close> adds one to it with wrap-around: after \<open>2 ^ 32\<close>
  successful inserts into a new slab the slice has \<open>2 ^ 32\<close> elements, \<open>Count()\<close>
  returns \<open>2 ^ 32\<close>, and \<open>header.count\<close> is 0.
\<close>

theorem C9_count_wraps_counterexample:
  "NewBasicArrayDataSlab example_env example_storage0 0x0102030405060708
     = (example_storage0\<lparr>nextIndex := 1\<rparr>, Inr (example_slab []))
   \<and> snd (snd (run_slab_ops example_env (example_slab []) (example_storage0\<lparr>nextIndex := 1\<rparr>)
                 (replicate (2 ^ 32) (OpInsert 0 7)))) = None
   \<and> length (elements (fst (run_slab_ops example_env (example_slab [])
                 (example_storage0\<lparr>nextIndex := 1\<rparr>) (replicate (2 ^ 32) (OpInsert 0 7))))) = 2 ^ 32
   \<and> count_hdr (header (fst (run_slab_ops example_env (example_slab [])
                 (example_storage0\<lparr>nextIndex := 1\<rparr>) (replicate (2 ^ 32) (OpInsert 0 7))))) = 0
   \<and> BasicArrayDataSlab_Count (fst (run_slab_ops example_env (example_slab [])
                 (example_storage0\<lparr>nextIndex := 1\<rparr>) (replicate (2 ^ 32) (OpInsert 0 7)))) = 2 ^ 32"
proof -
  from example_run_inserts[of "2 ^ 32"]
  obtain a' st' where run: "run_slab_ops example_env (example_slab []) (example_storage0\<lparr>nextIndex := 1\<rparr>)
              (replicate (2 ^ 32) (OpInsert 0 7)) = (a', st', None)"
    and el: "elements a' = replicate (2 ^ 32) 7"
    and cnt: "count_hdr (header a') = of_nat (2 ^ 32)"
    by blast
  have "(of_nat (2 ^ 32) :: uint32) = 0" by simp
  with cnt have "count_hdr (header a') = 0" by simp
  moreover have "BasicArrayDataSlab_Count a' = 2 ^ 32"
    using el by (simp add: BasicArrayDataSlab_Count_def)
  ultimately show ?thesis using run el example_new by simp
qed

text \<open>
  Claim C9, amended. On every slab reached from a new empty slab by a sequence of
  successful operations, \<open>header.count\<close> is the length of the elements slice modulo
  \<open>2 ^ 32\<close>, so it equals the length whenever the slice has fewer than \<open>2 ^ 32\<close>
  elements, and \<open>Count()\<close> returns the length of the slice. A successful \<open>Insert\<close> adds
  one to \<open>header.count\<close> (wrapping at \<open>2 ^ 32\<close>) and to the length, a successful \<open>Remove\<close>
  subtracts one, \<open>Set\<close> and \<open>Get\<close> leave both unchanged.
\<close>

theorem C9_count_tracks_length:
  assumes new: "NewBasicArrayDataSlab env st address = (st1, Inr a0)"
    and run: "run_slab_ops env a0 st1 ops = (a', st', None)"
  shows "count_hdr (header a') = of_nat (length (elements a'))
       \<and> unat (count_hdr (header a')) = length (elements a') mod 2 ^ 32
       \<and> (length (elements a') < 2 ^ 32 \<longrightarrow>
             unat (count_hdr (header a')) = length (elements a'))
       \<and> BasicArrayDataSlab_Count a' = of_nat (length (elements a'))
       \<and> (length (elements a') < 2 ^ 64 \<longrightarrow>
             unat (BasicArrayDataSlab_Count a') = length (elements a'))
       \<and> (\<forall>b sb i v b' sb'. BasicArrayDataSlab_Insert env b sb i v = (b', sb', None) \<longrightarrow>
             count_hdr (header b') = count_hdr (header b) + 1
             \<and> length (elements b') = length (elements b) + 1)
       \<and> (\<forall>b sb i v b' sb'. BasicArrayDataSlab_Remove env b sb i = (b', sb', Inr v) \<longrightarrow>
             count_hdr (header b') = count_hdr (header b) - 1
             \<and> length (elements b') + 1 = length (elements b))
       \<and> (\<forall>b sb i v b' sb'. BasicArrayDataSlab_Set env b sb i v = (b', sb', None) \<longrightarrow>
             count_hdr (header b') = count_hdr (header b)
             \<and> length (elements b') = length (elements b))
       \<and> (\<forall>b sb i. fst (apply_slab_op env b sb (OpGet i)) = b)"
proof -
  from run_slab_ops_inv[OF New_slab_inv[OF new] run]
  have cnt: "count_hdr (header a') = of_nat (length (elements a'))"
    by (simp add: slab_inv_def)
  have cnt64: "BasicArrayDataSlab_Count a' = of_nat (length (elements a'))"
    by (simp add: BasicArrayDataSlab_Count_def)
  have nat32: "unat (count_hdr (header a')) = length (elements a')"
    if "length (elements a') < 2 ^ 32"
    using that cnt by (simp add: of_nat_inverse)
  have mod32: "unat (count_hdr (header a')) = length (elements a') mod 2 ^ 32"
    using cnt by (simp add: unat_of_nat)
  have nat64: "unat (BasicArrayDataSlab_Count a') = length (elements a')"
    if "length (elements a') < 2 ^ 64"
    using that cnt64 by (simp add: of_nat_inverse)
  have ins: "count_hdr (header b') = count_hdr (header b) + 1
             \<and> length (elements b') = length (elements b) + 1"
    if "BasicArrayDataSlab_Insert env b sb i v = (b', sb', None)" for b sb i v b' sb'
  proof (cases "unat i \<le> length (elements b)")
    case True
    from Insert_in_bounds[OF True refl, of env sb v] that show ?thesis by auto
  next
    case False
    then show ?thesis using that by (simp add: oob_unchanged)
  qed
  have rm: "count_hdr (header b') = count_hdr (header b) - 1
             \<and> length (elements b') + 1 = length (elements b)"
    if "BasicArrayDataSlab_Remove env b sb i = (b', sb', Inr v)" for b sb i v b' sb'
  proof (cases "unat i < length (elements b)")
    case True
    from Remove_in_bounds[OF True refl, of env sb] that True show ?thesis by (auto simp: min_def)
  next
    case False
    then show ?thesis using that by (simp add: oob_unchanged)
  qed
  have upd: "count_hdr (header b') = count_hdr (header b)
             \<and> length (elements b') = length (elements b)"
    if "BasicArrayDataSlab_Set env b sb i v = (b', sb', None)" for b sb i v b' sb'
  proof (cases "unat i < length (elements b)")
    case True
    from Set_in_bounds[OF True refl, of env sb v] that show ?thesis by auto
  next
    case False
    then show ?thesis using that by (simp add: oob_unchanged)
  qed
  have get: "fst (apply_slab_op env b sb (OpGet i)) = b" for b sb i
    by simp
  from cnt mod32 cnt64 nat32 nat64 ins rm upd get show ?thesis by blast
qed

theorem C9_count_tracks_length_witness:
  "count_hdr (header (example_slab [6])) = 1
   \<and> BasicArrayDataSlab_Count (example_slab [6]) = 1
   \<and> unat (count_hdr (header (example_slab [6]))) = length (elements (example_slab [6]))
   \<and> fst (run_slab_ops example_env (example_slab []) (example_storage0\<lparr>nextIndex := 1\<rparr>)
           [OpInsert 0 5, OpInsert 1 6, OpSet 0 7, OpGet 1, OpRemove 0]) = example_slab [6]"
  using C9_count_tracks_length [OF example_new example_run] example_run
  by (simp add: example_slab_def)

section \<open>No split, merge or rebalancing (C10)\<close>

text \<open>
  Claim C10. \<open>Split\<close>, \<open>Merge\<close>, \<open>LendToRight\<close> and \<open>BorrowFromRight\<close> return an error on
  every input and leave the slab (and their argument) as it was. The slab never
  splits: with a storage whose \<open>Store\<close> succeeds, inserting any list of storables into
  a new slab succeeds and leaves them all in that one slab, under the same id, with
  \<open>header.size\<close> equal to 9 plus their byte sizes (as long as that fits a \<open>uint32\<close>); so
  the size is above every threshold smaller than that sum.
\<close>

theorem C10_no_split_no_envelope:
  assumes store_ok: "\<And>st i sl. snd (Store env st i sl) = None"
    and new: "NewBasicArrayDataSlab env st address = (st1, Inr a0)"
    and total: "9 + sum_list (map (\<lambda>x. unat (ByteSize env x)) vs) < 2 ^ 32"
  shows "BasicArrayDataSlab_Split a sa = (a, sa, Inl NotApplicable)
       \<and> BasicArrayDataSlab_Merge a slab = (a, slab, Some NotApplicable)
       \<and> BasicArrayDataSlab_LendToRight a slab = (a, slab, Some NotApplicable)
       \<and> BasicArrayDataSlab_BorrowFromRight a slab = (a, slab, Some NotApplicable)
       \<and> (\<exists>a' st'. run_slab_ops env a0 st1 (map (OpInsert 0) vs) = (a', st', None)
             \<and> elements a' = rev vs
             \<and> id_hdr (header a') = id_hdr (header a0)
             \<and> unat (size_hdr (header a')) = 9 + sum_list (map (\<lambda>x. unat (ByteSize env x)) vs)
             \<and> (\<forall>maxThreshold :: uint32.
                   unat maxThreshold < 9 + sum_list (map (\<lambda>x. unat (ByteSize env x)) vs)
                   \<longrightarrow> maxThreshold < size_hdr (header a')))"
proof -
  from run_insert_front_full[of env a0 st1 vs, OF store_ok]
  obtain a' st' where run: "run_slab_ops env a0 st1 (map (OpInsert 0) vs) = (a', st', None)"
    and el: "elements a' = rev vs @ elements a0"
    and ident: "id_hdr (header a') = id_hdr (header a0)"
    and sz: "size_hdr (header a') = size_hdr (header a0) + sum_list (map (ByteSize env) vs)"
    by blast
  from sz New_slab(3)[OF new]
  have "size_hdr (header a') = of_nat (9 + sum_list (map (\<lambda>x. unat (ByteSize env x)) vs))"
    by (simp add: of_nat_sum_unat)
  with total have usz: "unat (size_hdr (header a')) = 9 + sum_list (map (\<lambda>x. unat (ByteSize env x)) vs)"
    by (simp add: of_nat_inverse)
  then have "\<forall>maxThreshold :: uint32.
                   unat maxThreshold < 9 + sum_list (map (\<lambda>x. unat (ByteSize env x)) vs)
                   \<longrightarrow> maxThreshold < size_hdr (header a')"
    by (simp add: word_less_nat_alt)
  with run el ident usz New_slab(1)[OF new] show ?thesis
    by (simp add: BasicArrayDataSlab_Split_def BasicArrayDataSlab_Merge_def
        BasicArrayDataSlab_LendToRight_def BasicArrayDataSlab_BorrowFromRight_def)
qed

theorem C10_no_split_no_envelope_witness:
  "BasicArrayDataSlab_Merge (example_slab [1, 2]) (OtherSlab ())
     = (example_slab [1, 2], OtherSlab (), Some NotApplicable)
   \<and> BasicArrayDataSlab_BorrowFromRight (example_slab [1, 2]) (OtherSlab ())
     = (example_slab [1, 2], OtherSlab (), Some NotApplicable)
   \<and> (\<exists>a' st'. run_slab_ops example_env (example_slab []) (example_storage0\<lparr>nextIndex := 1\<rparr>)
                  (map (OpInsert 0) (replicate 400 7)) = (a', st', None)
         \<and> length (elements a') = 400
         \<and> 1024 < size_hdr (header a'))"
proof -
  have total: "9 + sum_list (map (\<lambda>x. unat (ByteSize example_env x)) (replicate 400 (7 :: byte))) = 1209"
    by (simp add: example_env_def sum_list_replicate)
  then have bound: "9 + sum_list (map (\<lambda>x. unat (ByteSize example_env x)) (replicate 400 (7 :: byte))) < 2 ^ 32"
    by simp
  from C10_no_split_no_envelope [OF example_store_ok example_new bound,
      of "example_slab [1, 2]" example_storage0 "OtherSlab ()"]
  obtain a' st' where
    borrow: "BasicArrayDataSlab_BorrowFromRight (example_slab [1, 2]) (OtherSlab ())
       = (example_slab [1, 2], OtherSlab (), Some NotApplicable)"
    and merge: "BasicArrayDataSlab_Merge (example_slab [1, 2]) (OtherSlab ())
       = (example_slab [1, 2], OtherSlab (), Some NotApplicable)"
    and run: "run_slab_ops example_env (example_slab []) (example_storage0\<lparr>nextIndex := 1\<rparr>)
                  (map (OpInsert 0) (replicate 400 7)) = (a', st', None)"
    and el: "elements a' = rev (replicate 400 7)"
    and thr: "\<And>maxThreshold :: uint32.
                unat maxThreshold < 9 + sum_list (map (\<lambda>x. unat (ByteSize example_env x)) (replicate 400 (7 :: byte)))
                \<Longrightarrow> maxThreshold < size_hdr (header a')"
    by blast
  have "(1024 :: uint32) < size_hdr (header a')"
    by (rule thr) (simp add: example_env_def sum_list_replicate)
  with borrow merge run el show ?thesis by simp
qed

end
